theory Spec2Isabelle
  imports Main
begin

section \<open>Enumerations and errors\<close>

text \<open>\<^verbatim>\<open>enums/account-provider.enum.js\<close>\<close>

datatype ProviderEnum = GOOGLE | GITHUB | FACEBOOK | EMAIL

text \<open>Modelled from the spec: the role names of \<^verbatim>\<open>enums/role.enum.js\<close> are not among the
  sources; the spec enumerates them.\<close>

datatype Roles = OWNER | ADMIN | MEMBER

text \<open>\<^verbatim>\<open>Permissions\<close>, \<^verbatim>\<open>TaskStatusEnum\<close> and \<^verbatim>\<open>TaskPriorityEnum\<close>, as they stand in the
  sources after the task service (lines 238 to 266).\<close>

datatype Permissions =
    CREATE_WORKSPACE | DELETE_WORKSPACE | EDIT_WORKSPACE | MANAGE_WORKSPACE_SETTINGS
  | ADD_MEMBER | CHANGE_MEMBER_ROLE | REMOVE_MEMBER
  | CREATE_PROJECT | EDIT_PROJECT | DELETE_PROJECT
  | CREATE_TASK | EDIT_TASK | DELETE_TASK | VIEW_ONLY

datatype TaskStatusEnum = BACKLOG | TODO | IN_PROGRESS | IN_REVIEW | DONE

datatype TaskPriorityEnum = LOW | MEDIUM | HIGH

text \<open>Modelled from the spec: \<^verbatim>\<open>utils/appError.js\<close> is not among the sources; the spec names
  the three error kinds the services throw. Each carries the message it was constructed with.
  The remaining constructors are the errors the persistence layer and the hashing utility
  raise by themselves: a failed schema validation, a violated unique index, a save of a
  document that is no longer stored, and a failure inside the hashing utility.\<close>

datatype error =
    BadRequestException string
  | NotFoundException string
  | UnauthorizedException string
  | ValidationError string
  | MongoServerError string
  | DocumentNotFoundError string
  | BcryptError string

fun message :: "error \<Rightarrow> string" where
  "message (BadRequestException m) = m"
| "message (NotFoundException m) = m"
| "message (UnauthorizedException m) = m"
| "message (ValidationError m) = m"
| "message (MongoServerError m) = m"
| "message (DocumentNotFoundError m) = m"
| "message (BcryptError m) = m"


section \<open>String setters of the schemas\<close>

text \<open>The schema options \<^verbatim>\<open>trim: true\<close> and \<^verbatim>\<open>lowercase: true\<close> run JavaScript's
  \<^verbatim>\<open>String.prototype.trim\<close> and \<^verbatim>\<open>toLowerCase\<close> on every value assigned to the path and
  on every query filter for it. A \<^typ>\<open>string\<close> here is the UTF-8 encoding of the JavaScript
  string, so a string is ASCII if no byte has its highest bit set. On an ASCII string the
  two functions are determined: \<^verbatim>\<open>trim\<close> strips the six ASCII white-space characters from
  both ends and \<^verbatim>\<open>toLowerCase\<close> maps the letters A to Z.\<close>

definition isAscii :: "string \<Rightarrow> bool" where
  "isAscii s \<longleftrightarrow> list_all (\<lambda>c. \<not> digit7 c) s"

definition isSpace :: "char \<Rightarrow> bool" where
  "isSpace c \<longleftrightarrow> c \<in> set [CHR 0x09, CHR 0x0A, CHR 0x0B, CHR 0x0C, CHR 0x0D, CHR 0x20]"

definition asciiTrim :: "string \<Rightarrow> string" where
  "asciiTrim s = rev (dropWhile isSpace (rev (dropWhile isSpace s)))"

definition toLowerChar :: "char \<Rightarrow> char" where
  "toLowerChar c =
     (case map_of (zip ''ABCDEFGHIJKLMNOPQRSTUVWXYZ'' ''abcdefghijklmnopqrstuvwxyz'') c of
        Some l \<Rightarrow> l
      | None \<Rightarrow> c)"

definition asciiToLowerCase :: "string \<Rightarrow> string" where
  "asciiToLowerCase s = map toLowerChar s"

text \<open>On a string with a character outside ASCII the two functions follow the Unicode
  tables of the JavaScript runtime (white space such as U+00A0, letters such as U+00C9),
  which are no code of the repository: what they return there is a parameter. \<open>jsTrim\<close> is
  \<^verbatim>\<open>trim\<close> on such a string, and \<open>jsEmailSetters\<close> is what the two setters of the \<^verbatim>\<open>email\<close>
  path, \<^verbatim>\<open>trim\<close> and \<^verbatim>\<open>lowercase\<close>, make of it together.\<close>

record javascript =
  jsTrim :: "string \<Rightarrow> string"
  jsEmailSetters :: "string \<Rightarrow> string"

text \<open>The setter of a path with \<^verbatim>\<open>trim: true\<close> (the names of a User and a Workspace).\<close>

definition trim :: "javascript \<Rightarrow> string \<Rightarrow> string" where
  "trim js s = (if isAscii s then asciiTrim s else jsTrim js s)"

text \<open>The setters of the \<^verbatim>\<open>email\<close> path of a User, \<^verbatim>\<open>trim: true\<close> and
  \<^verbatim>\<open>lowercase: true\<close>: the stored form of an email.\<close>

definition emailSetters :: "javascript \<Rightarrow> string \<Rightarrow> string" where
  "emailSetters js s =
     (if isAscii s then asciiToLowerCase (asciiTrim s) else jsEmailSetters js s)"


section \<open>Documents\<close>

type_synonym objectId = nat

text \<open>\<^verbatim>\<open>models/user.model.js\<close>, lines 20 to 49. An optional path is an \<^typ>\<open>'a option\<close>,
  \<^const>\<open>None\<close> when the stored document has no such field (or holds null). The two
  timestamp paths are left out: no service reads them.\<close>

record user =
  user_id :: objectId
  name :: string
  email :: string
  password :: "string option"
  profilePicture :: "string option"
  currentWorkspace :: "objectId option"
  isActive :: bool
  lastLogin :: "int option"

text \<open>Modelled from the spec: \<^verbatim>\<open>models/account.model.js\<close> is not among the sources; the spec's
  data model gives an Account its id, the owning user, the provider and the provider id.\<close>

record account =
  account_id :: objectId
  userId :: objectId
  provider :: ProviderEnum
  providerId :: string

text \<open>\<^verbatim>\<open>models/workspace.model.js\<close>\<close>

record workspace =
  workspace_id :: objectId
  workspaceName :: string
  workspaceDescription :: string
  owner :: objectId
  inviteCode :: string

text \<open>\<^verbatim>\<open>models/roles-permission.model.js\<close>\<close>

record role =
  role_id :: objectId
  roleName :: Roles
  permissions :: "Permissions list"

text \<open>\<^verbatim>\<open>models/member.model.js\<close>\<close>

record member =
  member_id :: objectId
  memberUserId :: objectId
  workspaceId :: objectId
  memberRole :: objectId
  joinedAt :: int

text \<open>Modelled from the spec: the schemas \<^verbatim>\<open>models/project.model.js\<close> and
  \<^verbatim>\<open>models/task.model.js\<close> are not among the sources; the spec's data model lists the
  attributes of a Project and of a Task, and the services assign them (a project's in
  \<^verbatim>\<open>createProjectService\<close>, a task's in \<^verbatim>\<open>createTaskService\<close>). A task's due date is
  optional.\<close>

record project =
  project_id :: objectId
  projectWorkspace :: objectId
  projectName :: string
  projectDescription :: "string option"
  emoji :: string
  createdBy :: objectId

record task =
  task_id :: objectId
  taskWorkspace :: objectId
  taskProject :: objectId
  title :: string
  status :: TaskStatusEnum
  priority :: TaskPriorityEnum
  assignedTo :: "objectId option"
  dueDate :: "int option"
  taskCreatedBy :: objectId

text \<open>The database: one list of documents per collection, in insertion order.\<close>

record db =
  users :: "user list"
  accounts :: "account list"
  workspaces :: "workspace list"
  roles :: "role list"
  members :: "member list"
  projects :: "project list"
  tasks :: "task list"

text \<open>A loaded or newly constructed document: the field values, whether it has been
  inserted yet, and the paths assigned since it was last saved.\<close>

record 'a document =
  doc :: 'a
  isNew :: bool
  modifiedPaths :: "string list"

definition isModified :: "string \<Rightarrow> 'a document \<Rightarrow> bool" where
  "isModified path d \<longleftrightarrow> path \<in> set (modifiedPaths d)"


section \<open>Collaborators\<close>

text \<open>Modelled from the spec: \<^verbatim>\<open>utils/bcrypt.js\<close> and \<^verbatim>\<open>utils/uuid.js\<close> are not among the
  sources. The spec gives the hashing utility as \<^verbatim>\<open>hash(plaintext)\<close> and
  \<^verbatim>\<open>compare(plaintext, hash)\<close> and the invite-code generator as a producer of an opaque
  token; they are parameters here. The comparison receives the stored password as it is,
  absent or present, and may throw. \<open>generateInviteCode\<close> and \<open>currentDate\<close> are the values
  that \<^verbatim>\<open>generateInviteCode()\<close> and \<^verbatim>\<open>new Date()\<close> return in the invocation at hand.\<close>

record env =
  hashValue :: "string \<Rightarrow> string"
  compareValue :: "string \<Rightarrow> string option \<Rightarrow> error + bool"
  generateInviteCode :: string
  currentDate :: int


section \<open>Sessions, transactions and effects\<close>

datatype sessionEvent = StartTransaction | CommitTransaction | AbortTransaction | EndSession

text \<open>The state a service runs in: the database as every client sees it, the view of the
  session's transaction (its snapshot with the transaction's own writes), the ObjectId
  generator, and, of the session that the running service opened, whether it has been ended
  and what has happened to it: its transaction started, committed or aborted, the session
  released.\<close>

record state =
  durable :: db
  snapshot :: db
  nextObjectId :: objectId
  sessionEnded :: bool
  sessionLog :: "sessionEvent list"

text \<open>An asynchronous function: it runs in a state and either throws or returns.\<close>

type_synonym 'a io = "state \<Rightarrow> (error + 'a) \<times> state"

definition ioReturn :: "'a \<Rightarrow> 'a io" where
  "ioReturn x = (\<lambda>s. (Inr x, s))"

definition ioThrow :: "error \<Rightarrow> 'a io" where
  "ioThrow e = (\<lambda>s. (Inl e, s))"

definition ioBind :: "'a io \<Rightarrow> ('a \<Rightarrow> 'b io) \<Rightarrow> 'b io" where
  "ioBind m f = (\<lambda>s. case m s of (Inl e, s') \<Rightarrow> (Inl e, s') | (Inr x, s') \<Rightarrow> f x s')"

definition tryCatch :: "'a io \<Rightarrow> (error \<Rightarrow> 'a io) \<Rightarrow> 'a io" where
  "tryCatch m handler = (\<lambda>s. case m s of (Inl e, s') \<Rightarrow> handler e s' | (Inr x, s') \<Rightarrow> (Inr x, s'))"

text \<open>\<^verbatim>\<open>finally\<close>: the block runs after the protected one on either outcome; the outcome
  stands unless the block itself throws.\<close>

definition tryFinally :: "'a io \<Rightarrow> unit io \<Rightarrow> 'a io" where
  "tryFinally m fin =
     (\<lambda>s. case m s of (r, s') \<Rightarrow>
        (case fin s' of (Inl e, s'') \<Rightarrow> (Inl e, s'') | (Inr _, s'') \<Rightarrow> (r, s'')))"

definition startSession :: "unit io" where
  "startSession = (\<lambda>s. (Inr (), s\<lparr>sessionEnded := False, sessionLog := []\<rparr>))"

definition startTransaction :: "unit io" where
  "startTransaction =
     (\<lambda>s. (Inr (), s\<lparr>snapshot := durable s, sessionLog := sessionLog s @ [StartTransaction]\<rparr>))"

text \<open>\<^verbatim>\<open>commitTransaction\<close> makes the transaction's view the database and
  \<^verbatim>\<open>abortTransaction\<close> discards it. Both are taken to return: a commit or an abort that
  fails by itself is not modelled.\<close>

definition commitTransaction :: "unit io" where
  "commitTransaction =
     (\<lambda>s. (Inr (), s\<lparr>durable := snapshot s, sessionLog := sessionLog s @ [CommitTransaction]\<rparr>))"

definition abortTransaction :: "unit io" where
  "abortTransaction =
     (\<lambda>s. (Inr (), s\<lparr>snapshot := durable s, sessionLog := sessionLog s @ [AbortTransaction]\<rparr>))"

text \<open>\<^verbatim>\<open>session.endSession()\<close> releases the session; on a session that has been ended
  already the call does nothing.\<close>

definition endSession :: "unit io" where
  "endSession =
     (\<lambda>s. if sessionEnded s then (Inr (), s)
          else (Inr (), s\<lparr>sessionEnded := True, sessionLog := sessionLog s @ [EndSession]\<rparr>))"

text \<open>A database operation bound to the session (\<^verbatim>\<open>.session(session)\<close>,
  \<^verbatim>\<open>save({ session })\<close>) works on the transaction's view; one without a session works on
  the database itself.\<close>

definition inSession :: "(db \<Rightarrow> error + 'a \<times> db) \<Rightarrow> 'a io" where
  "inSession f =
     (\<lambda>s. case f (snapshot s) of
        Inl e \<Rightarrow> (Inl e, s)
      | Inr (x, d) \<Rightarrow> (Inr x, s\<lparr>snapshot := d\<rparr>))"

definition direct :: "(db \<Rightarrow> error + 'a \<times> db) \<Rightarrow> 'a io" where
  "direct f =
     (\<lambda>s. case f (durable s) of
        Inl e \<Rightarrow> (Inl e, s)
      | Inr (x, d) \<Rightarrow> (Inr x, s\<lparr>durable := d\<rparr>))"

definition query :: "(db \<Rightarrow> 'a) \<Rightarrow> db \<Rightarrow> error + 'a \<times> db" where
  "query q d = Inr (q d, d)"

text \<open>\<^verbatim>\<open>new Model(...)\<close> draws the document's \<^verbatim>\<open>_id\<close> from the generator.\<close>

definition newObjectId :: "objectId io" where
  "newObjectId = (\<lambda>s. (Inr (nextObjectId s), s\<lparr>nextObjectId := Suc (nextObjectId s)\<rparr>))"


section \<open>Model operations\<close>

text \<open>\<^verbatim>\<open>updateOne\<close>: the first document matching the filter is rewritten.\<close>

fun updateOne :: "('a \<Rightarrow> bool) \<Rightarrow> ('a \<Rightarrow> 'a) \<Rightarrow> 'a list \<Rightarrow> 'a list option" where
  "updateOne P f [] = None"
| "updateOne P f (x # xs) =
     (if P x then Some (f x # xs) else map_option ((#) x) (updateOne P f xs))"

subsection \<open>User\<close>

text \<open>\<^verbatim>\<open>UserModel.findOne({ email })\<close>: the filter value passes the path's setters.\<close>

definition UserModel_findOne :: "javascript \<Rightarrow> string \<Rightarrow> db \<Rightarrow> user option" where
  "UserModel_findOne js em d = find (\<lambda>u. email u = emailSetters js em) (users d)"

definition UserModel_findById :: "objectId \<Rightarrow> db \<Rightarrow> user option" where
  "UserModel_findById i d = find (\<lambda>u. user_id u = i) (users d)"

text \<open>\<^verbatim>\<open>new UserModel({ email, name, password, profilePicture })\<close>: the setters run, the
  defaults are filled in, and the paths given are marked as modified. A key that is left
  out of the object (or is undefined) is \<^const>\<open>None\<close>.\<close>

definition new_UserModel ::
  "javascript \<Rightarrow> objectId \<Rightarrow> string \<Rightarrow> string \<Rightarrow> string option \<Rightarrow> string option \<Rightarrow> user document" where
  "new_UserModel js oid em nm pw pic =
     \<lparr>doc = \<lparr>user_id = oid, name = trim js nm, email = emailSetters js em, password = pw,
             profilePicture = pic, currentWorkspace = None, isActive = True, lastLogin = None\<rparr>,
      isNew = True,
      modifiedPaths = [''email'', ''name'']
        @ (if pw \<noteq> None then [''password''] else [])
        @ (if pic \<noteq> None then [''profilePicture''] else [])\<rparr>"

text \<open>\<^verbatim>\<open>user.currentWorkspace = workspace._id\<close>\<close>

definition set_currentWorkspace :: "objectId \<Rightarrow> user document \<Rightarrow> user document" where
  "set_currentWorkspace w d =
     d\<lparr>doc := (doc d)\<lparr>currentWorkspace := Some w\<rparr>,
       modifiedPaths := modifiedPaths d @ [''currentWorkspace'']\<rparr>"

text \<open>\<^verbatim>\<open>userSchema.pre("save")\<close>, lines 52 to 59 of \<^verbatim>\<open>models/user.model.js\<close>.\<close>

definition preSave :: "env \<Rightarrow> user document \<Rightarrow> user document" where
  "preSave en d =
     (if isModified ''password'' d then
        (case password (doc d) of
           Some p \<Rightarrow> if p \<noteq> [] then d\<lparr>doc := (doc d)\<lparr>password := Some (hashValue en p)\<rparr>\<rparr> else d
         | None \<Rightarrow> d)
      else d)"

text \<open>What an update of a stored document writes: the modified paths only.\<close>

definition writeModified :: "user document \<Rightarrow> user \<Rightarrow> user" where
  "writeModified d u =
     u\<lparr>name := (if isModified ''name'' d then name (doc d) else name u),
       email := (if isModified ''email'' d then email (doc d) else email u),
       password := (if isModified ''password'' d then password (doc d) else password u),
       profilePicture :=
         (if isModified ''profilePicture'' d then profilePicture (doc d) else profilePicture u),
       currentWorkspace :=
         (if isModified ''currentWorkspace'' d then currentWorkspace (doc d)
          else currentWorkspace u),
       isActive := (if isModified ''isActive'' d then isActive (doc d) else isActive u),
       lastLogin := (if isModified ''lastLogin'' d then lastLogin (doc d) else lastLogin u)\<rparr>"

text \<open>\<^verbatim>\<open>user.save(...)\<close>: validation (\<^verbatim>\<open>email\<close> is required, and an empty string does
  not satisfy it), then the pre-save hook, then an insert for a new document (the \<^verbatim>\<open>_id\<close>
  index and the unique index on \<^verbatim>\<open>email\<close> must admit it) or an update of the stored
  document's modified paths.\<close>

definition UserModel_save ::
  "env \<Rightarrow> user document \<Rightarrow> db \<Rightarrow> error + user document \<times> db" where
  "UserModel_save en d0 d =
     (if email (doc d0) = [] then Inl (ValidationError ''User validation failed: email is required'')
      else
        let dc = preSave en d0; saved = dc\<lparr>isNew := False, modifiedPaths := []\<rparr> in
        if isNew dc then
          (if \<exists>u \<in> set (users d). user_id u = user_id (doc dc) \<or> email u = email (doc dc)
           then Inl (MongoServerError ''E11000 duplicate key error collection: users'')
           else Inr (saved, d\<lparr>users := users d @ [doc dc]\<rparr>))
        else
          (case updateOne (\<lambda>u. user_id u = user_id (doc dc)) (writeModified dc) (users d) of
             None \<Rightarrow> Inl (DocumentNotFoundError ''No document found for query on model User'')
           | Some us \<Rightarrow> Inr (saved, d\<lparr>users := us\<rparr>)))"

text \<open>\<^verbatim>\<open>userSchema.methods.omitPassword\<close> and \<^verbatim>\<open>comparePassword\<close>, lines 62 to 71.\<close>

definition omitPassword :: "user \<Rightarrow> user" where
  "omitPassword u = u\<lparr>password := None\<rparr>"

definition comparePassword :: "env \<Rightarrow> user \<Rightarrow> string \<Rightarrow> error + bool" where
  "comparePassword en u v = compareValue en v (password u)"

subsection \<open>Account, Workspace, Role, Member\<close>

definition AccountModel_findOne :: "ProviderEnum \<Rightarrow> string \<Rightarrow> db \<Rightarrow> account option" where
  "AccountModel_findOne p pid d = find (\<lambda>a. provider a = p \<and> providerId a = pid) (accounts d)"

definition AccountModel_save :: "account \<Rightarrow> db \<Rightarrow> error + account \<times> db" where
  "AccountModel_save a d =
     (if \<exists>b \<in> set (accounts d). account_id b = account_id a
      then Inl (MongoServerError ''E11000 duplicate key error collection: accounts'')
      else Inr (a, d\<lparr>accounts := accounts d @ [a]\<rparr>))"

text \<open>\<^verbatim>\<open>new WorkspaceModel({ name, description, owner })\<close>: \<^verbatim>\<open>name\<close> is trimmed and the
  invite code defaults to a generated one.\<close>

definition new_WorkspaceModel ::
  "javascript \<Rightarrow> env \<Rightarrow> objectId \<Rightarrow> string \<Rightarrow> string \<Rightarrow> objectId \<Rightarrow> workspace" where
  "new_WorkspaceModel js en oid nm descr own =
     \<lparr>workspace_id = oid, workspaceName = trim js nm, workspaceDescription = descr, owner = own,
      inviteCode = generateInviteCode en\<rparr>"

definition WorkspaceModel_save :: "workspace \<Rightarrow> db \<Rightarrow> error + workspace \<times> db" where
  "WorkspaceModel_save w d =
     (if workspaceName w = [] \<or> inviteCode w = []
      then Inl (ValidationError ''Workspace validation failed'')
      else if \<exists>v \<in> set (workspaces d). workspace_id v = workspace_id w \<or> inviteCode v = inviteCode w
      then Inl (MongoServerError ''E11000 duplicate key error collection: workspaces'')
      else Inr (w, d\<lparr>workspaces := workspaces d @ [w]\<rparr>))"

definition RoleModel_findOne :: "Roles \<Rightarrow> db \<Rightarrow> role option" where
  "RoleModel_findOne n d = find (\<lambda>r. roleName r = n) (roles d)"

definition MemberModel_save :: "member \<Rightarrow> db \<Rightarrow> error + member \<times> db" where
  "MemberModel_save m d =
     (if \<exists>k \<in> set (members d). member_id k = member_id m
      then Inl (MongoServerError ''E11000 duplicate key error collection: members'')
      else Inr (m, d\<lparr>members := members d @ [m]\<rparr>))"

text \<open>\<^verbatim>\<open>picture || null\<close>\<close>

definition orNull :: "string option \<Rightarrow> string option" where
  "orNull v = (case v of Some x \<Rightarrow> if x = [] then None else Some x | None \<Rightarrow> None)"


section \<open>The authentication services\<close>

text \<open>\<^verbatim>\<open>loginOrCreateAccountService\<close>, lines 34 to 78: what runs between the start of the
  transaction and its commit.\<close>

definition loginOrCreateAccountTransaction ::
  "javascript \<Rightarrow> env \<Rightarrow> ProviderEnum \<Rightarrow> string \<Rightarrow> string \<Rightarrow> string \<Rightarrow> string option \<Rightarrow> user io" where
  "loginOrCreateAccountTransaction js en prov provId displayName em picture =
     ioBind (inSession (query (UserModel_findOne js em))) (\<lambda>found.
     case found of
       Some user \<Rightarrow> ioReturn user
     | None \<Rightarrow>
         ioBind newObjectId (\<lambda>uid.
         ioBind (inSession (UserModel_save en (new_UserModel js uid em displayName None (orNull picture)))) (\<lambda>user.
         ioBind newObjectId (\<lambda>aid.
         ioBind (inSession (AccountModel_save
                   \<lparr>account_id = aid, userId = user_id (doc user), provider = prov,
                    providerId = provId\<rparr>)) (\<lambda>account.
         ioBind newObjectId (\<lambda>wid.
         ioBind (inSession (WorkspaceModel_save
                   (new_WorkspaceModel js en wid ''My Workspace''
                      (''Workspace created for '' @ name (doc user)) (user_id (doc user))))) (\<lambda>workspace.
         ioBind (inSession (query (RoleModel_findOne OWNER))) (\<lambda>ownerRole.
         case ownerRole of
           None \<Rightarrow> ioThrow (NotFoundException ''Owner role not found'')
         | Some ownerRole \<Rightarrow>
             ioBind newObjectId (\<lambda>mid.
             ioBind (inSession (MemberModel_save
                       \<lparr>member_id = mid, memberUserId = user_id (doc user),
                        workspaceId = workspace_id workspace, memberRole = role_id ownerRole,
                        joinedAt = currentDate en\<rparr>)) (\<lambda>member.
             ioBind (inSession (UserModel_save en
                       (set_currentWorkspace (workspace_id workspace) user))) (\<lambda>user.
             ioReturn (doc user))))))))))))"

text \<open>\<^verbatim>\<open>loginOrCreateAccountService\<close>, lines 25 to 92.\<close>

definition loginOrCreateAccountService ::
  "javascript \<Rightarrow> env \<Rightarrow> ProviderEnum \<Rightarrow> string \<Rightarrow> string \<Rightarrow> string \<Rightarrow> string option \<Rightarrow> user io" where
  "loginOrCreateAccountService js en prov provId displayName em picture =
     ioBind startSession (\<lambda>_.
     tryFinally
       (tryCatch
          (ioBind startTransaction (\<lambda>_.
           ioBind (loginOrCreateAccountTransaction js en prov provId displayName em picture) (\<lambda>user.
           ioBind commitTransaction (\<lambda>_.
           ioBind endSession (\<lambda>_.
           ioReturn user)))))
          (\<lambda>error.
           ioBind abortTransaction (\<lambda>_.
           ioBind endSession (\<lambda>_.
           ioThrow error))))
       endSession)"

text \<open>\<^verbatim>\<open>registerUserService\<close>, lines 109 to 153: what runs between the start of the
  transaction and its commit.\<close>

definition registerUserTransaction ::
  "javascript \<Rightarrow> env \<Rightarrow> string \<Rightarrow> string \<Rightarrow> string \<Rightarrow> (objectId \<times> objectId) io" where
  "registerUserTransaction js en em nm pw =
     ioBind (inSession (query (UserModel_findOne js em))) (\<lambda>existingUser.
     if existingUser \<noteq> None then ioThrow (BadRequestException ''Email already exists'')
     else
       ioBind newObjectId (\<lambda>uid.
       ioBind (inSession (UserModel_save en (new_UserModel js uid em nm (Some pw) None))) (\<lambda>user.
       ioBind newObjectId (\<lambda>aid.
       ioBind (inSession (AccountModel_save
                 \<lparr>account_id = aid, userId = user_id (doc user), provider = EMAIL,
                  providerId = em\<rparr>)) (\<lambda>account.
       ioBind newObjectId (\<lambda>wid.
       ioBind (inSession (WorkspaceModel_save
                 (new_WorkspaceModel js en wid ''My Workspace''
                    (''Workspace created for '' @ name (doc user)) (user_id (doc user))))) (\<lambda>workspace.
       ioBind (inSession (query (RoleModel_findOne OWNER))) (\<lambda>ownerRole.
       case ownerRole of
         None \<Rightarrow> ioThrow (NotFoundException ''Owner role not found'')
       | Some ownerRole \<Rightarrow>
           ioBind newObjectId (\<lambda>mid.
           ioBind (inSession (MemberModel_save
                     \<lparr>member_id = mid, memberUserId = user_id (doc user),
                      workspaceId = workspace_id workspace, memberRole = role_id ownerRole,
                      joinedAt = currentDate en\<rparr>)) (\<lambda>member.
           ioBind (inSession (UserModel_save en
                     (set_currentWorkspace (workspace_id workspace) user))) (\<lambda>user.
           ioReturn (user_id (doc user), workspace_id workspace))))))))))))"

text \<open>\<^verbatim>\<open>registerUserService\<close>, lines 102 to 168.\<close>

definition registerUserService ::
  "javascript \<Rightarrow> env \<Rightarrow> string \<Rightarrow> string \<Rightarrow> string \<Rightarrow> (objectId \<times> objectId) io" where
  "registerUserService js en em nm pw =
     ioBind startSession (\<lambda>_.
     tryCatch
       (ioBind startTransaction (\<lambda>_.
        ioBind (registerUserTransaction js en em nm pw) (\<lambda>ids.
        ioBind commitTransaction (\<lambda>_.
        ioBind endSession (\<lambda>_.
        ioReturn ids)))))
       (\<lambda>error.
        ioBind abortTransaction (\<lambda>_.
        ioBind endSession (\<lambda>_.
        ioThrow error))))"

text \<open>\<^verbatim>\<open>verifyUserService\<close>, lines 178 to 196. No session is involved: the lookups read
  the database itself.\<close>

definition verifyUserService :: "env \<Rightarrow> string \<Rightarrow> string \<Rightarrow> ProviderEnum \<Rightarrow> user io" where
  "verifyUserService en em pw prov =
     ioBind (direct (query (AccountModel_findOne prov em))) (\<lambda>account.
     case account of
       None \<Rightarrow> ioThrow (NotFoundException ''Invalid email or password'')
     | Some account \<Rightarrow>
         ioBind (direct (query (UserModel_findById (userId account)))) (\<lambda>user.
         case user of
           None \<Rightarrow> ioThrow (NotFoundException ''User not found for the given account'')
         | Some user \<Rightarrow>
             (case comparePassword en user pw of
                Inl e \<Rightarrow> ioThrow e
              | Inr isMatch \<Rightarrow>
                  if \<not> isMatch then ioThrow (UnauthorizedException ''Invalid email or password'')
                  else ioReturn (omitPassword user))))"


section \<open>The project service\<close>

text \<open>A value of the request body where the service expects a string: the key may be
  absent (undefined), null, or hold a string.\<close>

datatype bodyValue = Absent | Null | Str string

text \<open>JavaScript truthiness of such a value: only a non-empty string is truthy.\<close>

fun truthy :: "bodyValue \<Rightarrow> bool" where
  "truthy (Str v) = (v \<noteq> [])"
| "truthy Absent = False"
| "truthy Null = False"

fun strOf :: "bodyValue \<Rightarrow> string" where
  "strOf (Str v) = v"
| "strOf Absent = []"
| "strOf Null = []"

definition ProjectModel_findById :: "objectId \<Rightarrow> db \<Rightarrow> project option" where
  "ProjectModel_findById i d = find (\<lambda>p. project_id p = i) (projects d)"

text \<open>\<^verbatim>\<open>ProjectModel.findOne({ _id: projectId, workspace: workspaceId })\<close>: the result is a
  document that has been stored and has no modified path.\<close>

definition ProjectModel_findOne :: "objectId \<Rightarrow> objectId \<Rightarrow> db \<Rightarrow> project document option" where
  "ProjectModel_findOne i w d =
     map_option (\<lambda>p. \<lparr>doc = p, isNew = False, modifiedPaths = []\<rparr>)
       (find (\<lambda>p. project_id p = i \<and> projectWorkspace p = w) (projects d))"

definition set_emoji :: "string \<Rightarrow> project document \<Rightarrow> project document" where
  "set_emoji v d = d\<lparr>doc := (doc d)\<lparr>emoji := v\<rparr>, modifiedPaths := modifiedPaths d @ [''emoji'']\<rparr>"

definition set_name :: "string \<Rightarrow> project document \<Rightarrow> project document" where
  "set_name v d = d\<lparr>doc := (doc d)\<lparr>projectName := v\<rparr>, modifiedPaths := modifiedPaths d @ [''name'']\<rparr>"

definition set_description :: "string \<Rightarrow> project document \<Rightarrow> project document" where
  "set_description v d =
     d\<lparr>doc := (doc d)\<lparr>projectDescription := Some v\<rparr>,
       modifiedPaths := modifiedPaths d @ [''description'']\<rparr>"

definition writeModifiedProject :: "project document \<Rightarrow> project \<Rightarrow> project" where
  "writeModifiedProject d p =
     p\<lparr>projectWorkspace :=
         (if isModified ''workspace'' d then projectWorkspace (doc d) else projectWorkspace p),
       projectName := (if isModified ''name'' d then projectName (doc d) else projectName p),
       projectDescription :=
         (if isModified ''description'' d then projectDescription (doc d)
          else projectDescription p),
       emoji := (if isModified ''emoji'' d then emoji (doc d) else emoji p),
       createdBy := (if isModified ''createdBy'' d then createdBy (doc d) else createdBy p)\<rparr>"

text \<open>\<^verbatim>\<open>project.save()\<close>: an insert for a new document, otherwise an update of the
  stored document's modified paths, and no write at all when no path is modified.\<close>

definition ProjectModel_save :: "project document \<Rightarrow> db \<Rightarrow> error + project document \<times> db" where
  "ProjectModel_save d0 d =
     (let saved = d0\<lparr>isNew := False, modifiedPaths := []\<rparr> in
      if isNew d0 then
        (if \<exists>p \<in> set (projects d). project_id p = project_id (doc d0)
         then Inl (MongoServerError ''E11000 duplicate key error collection: projects'')
         else Inr (saved, d\<lparr>projects := projects d @ [doc d0]\<rparr>))
      else if modifiedPaths d0 = [] then Inr (saved, d)
      else
        (case updateOne (\<lambda>p. project_id p = project_id (doc d0)) (writeModifiedProject d0)
                (projects d) of
           None \<Rightarrow> Inl (DocumentNotFoundError ''No document found for query on model Project'')
         | Some ps \<Rightarrow> Inr (saved, d\<lparr>projects := ps\<rparr>)))"

text \<open>\<^verbatim>\<open>updateProjectService\<close>, lines 161 to 182 of the project service.\<close>

definition updateProjectService ::
  "objectId \<Rightarrow> objectId \<Rightarrow> bodyValue \<Rightarrow> bodyValue \<Rightarrow> bodyValue \<Rightarrow> project io" where
  "updateProjectService workspaceId' projectId bName bEmoji bDescription =
     ioBind (direct (query (ProjectModel_findOne projectId workspaceId'))) (\<lambda>found.
     case found of
       None \<Rightarrow> ioThrow (NotFoundException
                 ''Project not found or does not belong to the specified workspace'')
     | Some project \<Rightarrow>
         (let project = (if truthy bEmoji then set_emoji (strOf bEmoji) project else project);
              project = (if truthy bName then set_name (strOf bName) project else project);
              project = (if truthy bDescription then set_description (strOf bDescription) project
                         else project)
          in ioBind (direct (ProjectModel_save project)) (\<lambda>project.
             ioReturn (doc project))))"

record analytics =
  totalTasks :: nat
  overdueTasks :: nat
  completedTasks :: nat

text \<open>The aggregation stage \<^verbatim>\<open>{ $count: "count" }\<close> yields one document holding the number
  of documents it received, and no document at all when it received none.\<close>

definition countStage :: "'a list \<Rightarrow> nat list" where
  "countStage xs = (if xs = [] then [] else [length xs])"

text \<open>\<^verbatim>\<open>facet[0]?.count || 0\<close>\<close>

definition countOrZero :: "nat list \<Rightarrow> nat" where
  "countOrZero facet = (case facet of [] \<Rightarrow> 0 | c # _ \<Rightarrow> if c = 0 then 0 else c)"

text \<open>The \<^verbatim>\<open>$match\<close> of the overdue facet: \<^verbatim>\<open>$lt\<close> holds only of a due date that is
  present and earlier than the given date.\<close>

definition overdue :: "int \<Rightarrow> task \<Rightarrow> bool" where
  "overdue now t \<longleftrightarrow>
     (case dueDate t of None \<Rightarrow> False | Some due \<Rightarrow> due < now) \<and> status t \<noteq> DONE"

text \<open>\<^verbatim>\<open>TaskModel.aggregate([...])\<close>, lines 104 to 136: the \<^verbatim>\<open>$match\<close> on the project and
  the three facets.\<close>

definition TaskModel_aggregate :: "objectId \<Rightarrow> int \<Rightarrow> db \<Rightarrow> nat list \<times> nat list \<times> nat list" where
  "TaskModel_aggregate projectId now d =
     (let matched = filter (\<lambda>t. taskProject t = projectId) (tasks d) in
      (countStage matched,
       countStage (filter (overdue now) matched),
       countStage (filter (\<lambda>t. status t = DONE) matched)))"

text \<open>\<^verbatim>\<open>getProjectAnalyticsService\<close>, lines 92 to 149 of the project service.\<close>

definition getProjectAnalyticsService :: "env \<Rightarrow> objectId \<Rightarrow> objectId \<Rightarrow> analytics io" where
  "getProjectAnalyticsService en workspaceId' projectId =
     ioBind (direct (query (ProjectModel_findById projectId))) (\<lambda>project.
     if (case project of None \<Rightarrow> True | Some p \<Rightarrow> projectWorkspace p \<noteq> workspaceId')
     then ioThrow (NotFoundException ''Project not found or does not belong to this workspace'')
     else
       ioBind (direct (query (TaskModel_aggregate projectId (currentDate en)))) (\<lambda>facets.
       case facets of (totalFacet, overdueFacet, completedFacet) \<Rightarrow>
         ioReturn \<lparr>totalTasks = countOrZero totalFacet,
                   overdueTasks = countOrZero overdueFacet,
                   completedTasks = countOrZero completedFacet\<rparr>))"

section \<open>Notions used in the statements\<close>

text \<open>The state in which the steps of a transaction start: the session has been opened
  and its transaction started.\<close>

definition begun :: "state \<Rightarrow> state" where
  "begun s = s\<lparr>sessionEnded := False, snapshot := durable s, sessionLog := [StartTransaction]\<rparr>"

text \<open>A step that touches neither the database itself nor the session.\<close>

definition keeps :: "'a io \<Rightarrow> bool" where
  "keeps m \<longleftrightarrow>
     (\<forall>s. durable (snd (m s)) = durable s \<and> sessionEnded (snd (m s)) = sessionEnded s \<and>
          sessionLog (snd (m s)) = sessionLog s)"

text \<open>A step that never sets the ObjectId generator back.\<close>

definition advances :: "'a io \<Rightarrow> bool" where
  "advances m \<longleftrightarrow> (\<forall>s. nextObjectId s \<le> nextObjectId (snd (m s)))"

text \<open>What the first save of a new User document stores for a password given to the
  constructor.\<close>

definition storedPassword :: "env \<Rightarrow> string option \<Rightarrow> string option" where
  "storedPassword en pw =
     (case pw of Some p \<Rightarrow> if p \<noteq> [] then Some (hashValue en p) else Some p | None \<Rightarrow> None)"

text \<open>The four documents of a completed creation sequence that drew its first ObjectId
  \<open>n\<close>, appended to a database in which the OWNER role is stored.\<close>

definition createdUser ::
  "javascript \<Rightarrow> env \<Rightarrow> objectId \<Rightarrow> string \<Rightarrow> string \<Rightarrow> string option \<Rightarrow> string option \<Rightarrow> user" where
  "createdUser js en n em nm pw pic =
     \<lparr>user_id = n, name = trim js nm, email = emailSetters js em,
      password = storedPassword en pw, profilePicture = pic,
      currentWorkspace = Some (n + 2), isActive = True, lastLogin = None\<rparr>"

definition created ::
  "javascript \<Rightarrow> env \<Rightarrow> objectId \<Rightarrow> string \<Rightarrow> string \<Rightarrow> string option \<Rightarrow> string option \<Rightarrow> ProviderEnum \<Rightarrow>
   string \<Rightarrow> db \<Rightarrow> db" where
  "created js en n em nm pw pic prov provId d =
     d\<lparr>users := users d @ [createdUser js en n em nm pw pic],
       accounts := accounts d @
         [\<lparr>account_id = n + 1, userId = n, provider = prov, providerId = provId\<rparr>],
       workspaces := workspaces d @
         [\<lparr>workspace_id = n + 2, workspaceName = ''My Workspace'',
           workspaceDescription = ''Workspace created for '' @ trim js nm, owner = n,
           inviteCode = generateInviteCode en\<rparr>],
       members := members d @
         [\<lparr>member_id = n + 3, memberUserId = n, workspaceId = n + 2,
           memberRole = role_id (the (RoleModel_findOne OWNER d)),
           joinedAt = currentDate en\<rparr>]\<rparr>"

text \<open>When the creation sequence goes through: the stored form of the email is not empty
  and no User has it, the four ObjectIds to be drawn are not in use, the generated invite
  code is not empty and no Workspace has it, and the OWNER role is stored.\<close>

definition creatable :: "javascript \<Rightarrow> env \<Rightarrow> string \<Rightarrow> objectId \<Rightarrow> db \<Rightarrow> bool" where
  "creatable js en em n d \<longleftrightarrow>
     emailSetters js em \<noteq> [] \<and>
     (\<forall>u \<in> set (users d). user_id u \<noteq> n \<and> email u \<noteq> emailSetters js em) \<and>
     (\<forall>a \<in> set (accounts d). account_id a \<noteq> n + 1) \<and>
     generateInviteCode en \<noteq> [] \<and>
     (\<forall>w \<in> set (workspaces d). workspace_id w \<noteq> n + 2 \<and> inviteCode w \<noteq> generateInviteCode en) \<and>
     RoleModel_findOne OWNER d \<noteq> None \<and>
     (\<forall>m \<in> set (members d). member_id m \<noteq> n + 3)"

text \<open>ObjectIds are unique: the generator is ahead of every id that the stored User,
  Account, Workspace and Member documents carry or refer to.\<close>

definition freshIds :: "state \<Rightarrow> bool" where
  "freshIds s \<longleftrightarrow>
     (\<forall>u \<in> set (users (durable s)). user_id u < nextObjectId s) \<and>
     (\<forall>a \<in> set (accounts (durable s)). account_id a < nextObjectId s \<and> userId a < nextObjectId s) \<and>
     (\<forall>w \<in> set (workspaces (durable s)). workspace_id w < nextObjectId s \<and> owner w < nextObjectId s) \<and>
     (\<forall>m \<in> set (members (durable s)).
        member_id m < nextObjectId s \<and> memberUserId m < nextObjectId s)"

text \<open>A User is onboarded in a database: exactly one Workspace is owned by it, exactly one
  Account belongs to it, exactly one Member joins it, to that Workspace and with a role that
  is a stored Role named OWNER, and the one User with that id has the Workspace as its
  current one.\<close>

definition onboardedIn :: "objectId \<Rightarrow> objectId \<Rightarrow> db \<Rightarrow> bool" where
  "onboardedIn uid wid d \<longleftrightarrow>
     map workspace_id (filter (\<lambda>w. owner w = uid) (workspaces d)) = [wid] \<and>
     length (filter (\<lambda>a. userId a = uid) (accounts d)) = 1 \<and>
     map workspaceId (filter (\<lambda>m. memberUserId m = uid) (members d)) = [wid] \<and>
     list_all (\<lambda>m. list_ex (\<lambda>r. role_id r = memberRole m \<and> roleName r = OWNER) (roles d))
       (filter (\<lambda>m. memberUserId m = uid) (members d)) \<and>
     map currentWorkspace (filter (\<lambda>u. user_id u = uid) (users d)) = [Some wid]"

text \<open>A project after an update with the given body values: each of the three fields
  takes the body's value if that value is truthy.\<close>

definition edited :: "bodyValue \<Rightarrow> bodyValue \<Rightarrow> bodyValue \<Rightarrow> project \<Rightarrow> project" where
  "edited bName bEmoji bDescription p =
     p\<lparr>emoji := (if truthy bEmoji then strOf bEmoji else emoji p),
       projectName := (if truthy bName then strOf bName else projectName p),
       projectDescription :=
         (if truthy bDescription then Some (strOf bDescription) else projectDescription p)\<rparr>"

text \<open>What an update of the project with the given id may change between two databases:
  nothing outside the project collection; no stored project's id, workspace or creator; a
  field only if its body value is truthy; and no project with another id.\<close>

definition onlyEdited :: "objectId \<Rightarrow> bodyValue \<Rightarrow> bodyValue \<Rightarrow> bodyValue \<Rightarrow> db \<Rightarrow> db \<Rightarrow> bool" where
  "onlyEdited pid bName bEmoji bDescription d d' \<longleftrightarrow>
     d'\<lparr>projects := projects d\<rparr> = d \<and>
     map project_id (projects d') = map project_id (projects d) \<and>
     map projectWorkspace (projects d') = map projectWorkspace (projects d) \<and>
     map createdBy (projects d') = map createdBy (projects d) \<and>
     (truthy bEmoji \<or> map emoji (projects d') = map emoji (projects d)) \<and>
     (truthy bName \<or> map projectName (projects d') = map projectName (projects d)) \<and>
     (truthy bDescription \<or>
        map projectDescription (projects d') = map projectDescription (projects d)) \<and>
     list_all2 (\<lambda>q q'. project_id q = pid \<or> q' = q) (projects d) (projects d')"

text \<open>What a caller can read of the message of a thrown error.\<close>

definition thrownMessage :: "error + 'a \<Rightarrow> string option" where
  "thrownMessage r = (case r of Inl e \<Rightarrow> Some (message e) | Inr _ \<Rightarrow> None)"

text \<open>A concrete configuration to instantiate the statements with: a stand-in for the
  hashing utility that prefixes the plaintext and compares accordingly, an empty database,
  one seeded with the three roles, and states over them. Every string of the examples is
  ASCII, so none of them consults the runtime's functions for other strings; \<open>exampleJs\<close>
  fills them with the identity.\<close>

definition exampleJs :: javascript where
  "exampleJs = \<lparr>jsTrim = (\<lambda>s. s), jsEmailSetters = (\<lambda>s. s)\<rparr>"

definition exampleEnv :: env where
  "exampleEnv =
     \<lparr>hashValue = (\<lambda>p. ''$2b$10$'' @ p),
      compareValue = (\<lambda>v h. case h of
          None \<Rightarrow> Inl (BcryptError ''data and hash arguments required'')
        | Some h' \<Rightarrow> Inr (h' = ''$2b$10$'' @ v)),
      generateInviteCode = ''a1b2c3d4'',
      currentDate = 1700000000000\<rparr>"

definition emptyDb :: db where
  "emptyDb =
     \<lparr>users = [], accounts = [], workspaces = [], roles = [], members = [], projects = [],
      tasks = []\<rparr>"

definition seededDb :: db where
  "seededDb =
     emptyDb\<lparr>roles :=
       [\<lparr>role_id = 1, roleName = OWNER, permissions = [CREATE_WORKSPACE, DELETE_WORKSPACE]\<rparr>,
        \<lparr>role_id = 2, roleName = ADMIN, permissions = [EDIT_WORKSPACE]\<rparr>,
        \<lparr>role_id = 3, roleName = MEMBER, permissions = [VIEW_ONLY]\<rparr>]\<rparr>"

text \<open>The seeded database with two projects of workspace 12 and five tasks.\<close>

definition projectDb :: db where
  "projectDb =
     seededDb\<lparr>
       projects :=
         [\<lparr>project_id = 20, projectWorkspace = 12, projectName = ''Launch'',
           projectDescription = None, emoji = '':rocket:'', createdBy = 10\<rparr>,
          \<lparr>project_id = 21, projectWorkspace = 12, projectName = ''Backlog'',
           projectDescription = Some ''Later'', emoji = '':card_box:'', createdBy = 10\<rparr>],
       tasks :=
         [\<lparr>task_id = 22, taskWorkspace = 12, taskProject = 20, title = ''Plan'', status = DONE,
           priority = HIGH, assignedTo = Some 10, dueDate = Some 1600000000000,
           taskCreatedBy = 10\<rparr>,
          \<lparr>task_id = 23, taskWorkspace = 12, taskProject = 20, title = ''Build'', status = TODO,
           priority = MEDIUM, assignedTo = None, dueDate = Some 1650000000000,
           taskCreatedBy = 10\<rparr>,
          \<lparr>task_id = 24, taskWorkspace = 12, taskProject = 20, title = ''Ship'',
           status = IN_PROGRESS, priority = LOW, assignedTo = None,
           dueDate = Some 1800000000000, taskCreatedBy = 10\<rparr>,
          \<lparr>task_id = 25, taskWorkspace = 12, taskProject = 20, title = ''Review'',
           status = IN_REVIEW, priority = LOW, assignedTo = None, dueDate = None,
           taskCreatedBy = 10\<rparr>,
          \<lparr>task_id = 26, taskWorkspace = 12, taskProject = 21, title = ''Idea'', status = BACKLOG,
           priority = LOW, assignedTo = None, dueDate = Some 1600000000000,
           taskCreatedBy = 10\<rparr>]\<rparr>"

definition stateOf :: "db \<Rightarrow> objectId \<Rightarrow> state" where
  "stateOf d n =
     \<lparr>durable = d, snapshot = d, nextObjectId = n, sessionEnded = False, sessionLog = []\<rparr>"


section \<open>Effects: basic facts\<close>

lemma ioBind_Inr:
  "ioBind m f s = (Inr y, s'') \<longleftrightarrow> (\<exists>x s'. m s = (Inr x, s') \<and> f x s' = (Inr y, s''))"
  by (cases "m s") (auto simp: ioBind_def split: sum.splits)

lemma ioReturn_Inr: "ioReturn x s = (Inr y, s') \<longleftrightarrow> y = x \<and> s' = s"
  by (auto simp: ioReturn_def)

lemma ioThrow_Inr: "ioThrow e s = (Inr y, s') \<longleftrightarrow> False"
  by (simp add: ioThrow_def)

lemma newObjectId_Inr:
  "newObjectId s = (Inr n, s') \<longleftrightarrow>
     n = nextObjectId s \<and> s' = s\<lparr>nextObjectId := Suc (nextObjectId s)\<rparr>"
  by (auto simp: newObjectId_def)

lemma inSession_Inr:
  "inSession f s = (Inr x, s') \<longleftrightarrow> (\<exists>d. f (snapshot s) = Inr (x, d) \<and> s' = s\<lparr>snapshot := d\<rparr>)"
  by (auto simp: inSession_def split: sum.splits)

lemma direct_Inr:
  "direct f s = (Inr x, s') \<longleftrightarrow> (\<exists>d. f (durable s) = Inr (x, d) \<and> s' = s\<lparr>durable := d\<rparr>)"
  by (auto simp: direct_def split: sum.splits)

lemma query_Inr: "query q d = Inr (x, d') \<longleftrightarrow> x = q d \<and> d' = d"
  by (auto simp: query_def)

lemma keeps_ioReturn: "keeps (ioReturn x)"
  by (simp add: keeps_def ioReturn_def)

lemma keeps_ioThrow: "keeps (ioThrow e)"
  by (simp add: keeps_def ioThrow_def)

lemma keeps_newObjectId: "keeps newObjectId"
  by (simp add: keeps_def newObjectId_def)

lemma keeps_inSession: "keeps (inSession f)"
  by (simp add: keeps_def inSession_def split: sum.splits prod.splits)

lemma keeps_ioBind:
  assumes "keeps m" and "\<And>x. keeps (f x)"
  shows "keeps (ioBind m f)"
  unfolding keeps_def
proof (intro allI)
  fix s
  obtain r s' where ms: "m s = (r, s')" by (cases "m s")
  from assms(1) ms
  have s': "durable s' = durable s" "sessionEnded s' = sessionEnded s"
    "sessionLog s' = sessionLog s"
    unfolding keeps_def by (metis snd_conv)+
  show "durable (snd (ioBind m f s)) = durable s \<and>
        sessionEnded (snd (ioBind m f s)) = sessionEnded s \<and>
        sessionLog (snd (ioBind m f s)) = sessionLog s"
  proof (cases r)
    case (Inl e)
    with ms s' show ?thesis by (simp add: ioBind_def)
  next
    case (Inr x)
    from assms(2)[of x]
    have "durable (snd (f x s')) = durable s'" "sessionEnded (snd (f x s')) = sessionEnded s'"
      "sessionLog (snd (f x s')) = sessionLog s'"
      unfolding keeps_def by simp_all
    with Inr ms s' show ?thesis by (simp add: ioBind_def)
  qed
qed

lemma keeps_case_option:
  "keeps a \<Longrightarrow> (\<And>x. keeps (b x)) \<Longrightarrow> keeps (case v of None \<Rightarrow> a | Some x \<Rightarrow> b x)"
  by (cases v) simp_all

lemma keeps_if: "keeps a \<Longrightarrow> keeps b \<Longrightarrow> keeps (if c then a else b)"
  by simp

lemmas keeps_intros =
  keeps_ioBind keeps_ioReturn keeps_ioThrow keeps_newObjectId keeps_inSession
  keeps_case_option keeps_if

lemma keeps_registerUserTransaction: "keeps (registerUserTransaction js en em nm pw)"
  unfolding registerUserTransaction_def by (intro keeps_intros)

lemma keeps_loginOrCreateAccountTransaction:
  "keeps (loginOrCreateAccountTransaction js en prov provId displayName em picture)"
  unfolding loginOrCreateAccountTransaction_def by (intro keeps_intros)

lemma keepsD:
  "keeps m \<Longrightarrow> m s = (r, s') \<Longrightarrow>
     durable s' = durable s \<and> sessionEnded s' = sessionEnded s \<and> sessionLog s' = sessionLog s"
  unfolding keeps_def by (metis snd_conv)

text \<open>Each service is its transaction between the opening calls on the session and the
  closing ones.\<close>

lemma registerUserService_alt:
  "registerUserService js en em nm pw s =
     (case registerUserTransaction js en em nm pw (begun s) of
        (Inl e, s') \<Rightarrow>
          (Inl e, s'\<lparr>snapshot := durable s', sessionEnded := True,
                    sessionLog := sessionLog s' @ [AbortTransaction, EndSession]\<rparr>)
      | (Inr r, s') \<Rightarrow>
          (Inr r, s'\<lparr>durable := snapshot s', sessionEnded := True,
                    sessionLog := sessionLog s' @ [CommitTransaction, EndSession]\<rparr>))"
proof -
  obtain r s' where tx: "registerUserTransaction js en em nm pw (begun s) = (r, s')"
    by (cases "registerUserTransaction js en em nm pw (begun s)")
  from keepsD[OF keeps_registerUserTransaction tx] have "\<not> sessionEnded s'"
    by (simp add: begun_def)
  with tx show ?thesis
    by (cases r)
      (simp_all add: registerUserService_def ioBind_def tryCatch_def startSession_def
        startTransaction_def commitTransaction_def abortTransaction_def endSession_def
        ioReturn_def ioThrow_def begun_def)
qed

text \<open>In \<open>loginOrCreateAccountService\<close> the call of \<^verbatim>\<open>endSession\<close> in the \<^verbatim>\<open>finally\<close> block
  finds the session ended.\<close>

lemma loginOrCreateAccountService_alt:
  "loginOrCreateAccountService js en prov provId displayName em picture s =
     (case loginOrCreateAccountTransaction js en prov provId displayName em picture (begun s) of
        (Inl e, s') \<Rightarrow>
          (Inl e, s'\<lparr>snapshot := durable s', sessionEnded := True,
                    sessionLog := sessionLog s' @ [AbortTransaction, EndSession]\<rparr>)
      | (Inr r, s') \<Rightarrow>
          (Inr r, s'\<lparr>durable := snapshot s', sessionEnded := True,
                    sessionLog := sessionLog s' @ [CommitTransaction, EndSession]\<rparr>))"
proof -
  let ?tx = "loginOrCreateAccountTransaction js en prov provId displayName em picture (begun s)"
  obtain r s' where tx: "?tx = (r, s')" by (cases ?tx)
  from keepsD[OF keeps_loginOrCreateAccountTransaction tx] have "\<not> sessionEnded s'"
    by (simp add: begun_def)
  with tx show ?thesis
    by (cases r)
      (simp_all add: loginOrCreateAccountService_def ioBind_def tryCatch_def tryFinally_def
        startSession_def startTransaction_def commitTransaction_def abortTransaction_def
        endSession_def ioReturn_def ioThrow_def begun_def)
qed


section \<open>The creation sequence\<close>

lemma updateOne_append_last:
  "\<forall>x \<in> set xs. \<not> P x \<Longrightarrow> P y \<Longrightarrow> updateOne P f (xs @ [y]) = Some (xs @ [f y])"
  by (induction xs) simp_all

lemma find_None_iff_ball: "find P xs = None \<longleftrightarrow> (\<forall>x \<in> set xs. \<not> P x)"
  by (auto simp: find_None_iff)

lemma trim_My_Workspace: "trim js ''My Workspace'' = ''My Workspace''"
  by (simp add: trim_def isAscii_def asciiTrim_def isSpace_def)

lemma new_user_save_Inr:
  "UserModel_save en (new_UserModel js n em nm pw pic) d = Inr (x, d') \<longleftrightarrow>
     emailSetters js em \<noteq> [] \<and>
     (\<forall>u \<in> set (users d). user_id u \<noteq> n \<and> email u \<noteq> emailSetters js em) \<and>
     x = \<lparr>doc = \<lparr>user_id = n, name = trim js nm, email = emailSetters js em,
                 password = storedPassword en pw, profilePicture = pic,
                 currentWorkspace = None, isActive = True, lastLogin = None\<rparr>,
          isNew = False, modifiedPaths = []\<rparr> \<and>
     d' = d\<lparr>users := users d @ [doc x]\<rparr>"
  by (cases pw)
    (auto simp: UserModel_save_def new_UserModel_def preSave_def isModified_def
      storedPassword_def Let_def)

lemma AccountModel_save_Inr:
  "AccountModel_save a d = Inr (x, d') \<longleftrightarrow>
     (\<forall>b \<in> set (accounts d). account_id b \<noteq> account_id a) \<and> x = a \<and>
     d' = d\<lparr>accounts := accounts d @ [a]\<rparr>"
  by (auto simp: AccountModel_save_def)

lemma MemberModel_save_Inr:
  "MemberModel_save m d = Inr (x, d') \<longleftrightarrow>
     (\<forall>k \<in> set (members d). member_id k \<noteq> member_id m) \<and> x = m \<and>
     d' = d\<lparr>members := members d @ [m]\<rparr>"
  by (auto simp: MemberModel_save_def)

lemma WorkspaceModel_save_Inr:
  "WorkspaceModel_save w d = Inr (x, d') \<longleftrightarrow>
     workspaceName w \<noteq> [] \<and> inviteCode w \<noteq> [] \<and>
     (\<forall>v \<in> set (workspaces d).
        workspace_id v \<noteq> workspace_id w \<and> inviteCode v \<noteq> inviteCode w) \<and>
     x = w \<and> d' = d\<lparr>workspaces := workspaces d @ [w]\<rparr>"
  by (auto simp: WorkspaceModel_save_def)

lemma writeModified_currentWorkspace:
  "writeModified \<lparr>doc = u, isNew = b, modifiedPaths = [''currentWorkspace'']\<rparr> =
     (\<lambda>v. v\<lparr>currentWorkspace := currentWorkspace u\<rparr>)"
  by (rule ext) (simp add: writeModified_def isModified_def)

lemma saved_user_save_Inr:
  "UserModel_save en (set_currentWorkspace w \<lparr>doc = u, isNew = False, modifiedPaths = []\<rparr>) d
     = Inr (x, d') \<longleftrightarrow>
     email u \<noteq> [] \<and>
     (\<exists>us. updateOne (\<lambda>v. user_id v = user_id u) (\<lambda>v. v\<lparr>currentWorkspace := Some w\<rparr>)
             (users d) = Some us \<and> d' = d\<lparr>users := us\<rparr>) \<and>
     x = \<lparr>doc = u\<lparr>currentWorkspace := Some w\<rparr>, isNew = False, modifiedPaths = []\<rparr>"
  by (auto simp: UserModel_save_def set_currentWorkspace_def preSave_def isModified_def Let_def
      writeModified_currentWorkspace split: option.splits)

lemmas creation_steps =
  ioBind_Inr ioReturn_Inr ioThrow_Inr newObjectId_Inr inSession_Inr query_Inr new_user_save_Inr
  AccountModel_save_Inr MemberModel_save_Inr WorkspaceModel_save_Inr saved_user_save_Inr
  new_WorkspaceModel_def trim_My_Workspace

lemma registerUserTransaction_Inr_D:
  assumes "registerUserTransaction js en em nm pw s = (Inr r, s')"
  shows "creatable js en em (nextObjectId s) (snapshot s)"
    and "r = (nextObjectId s, nextObjectId s + 2)"
    and "s' = s\<lparr>snapshot := created js en (nextObjectId s) em nm (Some pw) None EMAIL em (snapshot s),
               nextObjectId := nextObjectId s + 4\<rparr>"
  using assms
    apply (simp_all add: registerUserTransaction_def creation_steps split: option.splits if_splits)
    apply (auto simp: creatable_def created_def createdUser_def RoleModel_findOne_def
      updateOne_append_last)
  done

lemma registerUserTransaction_Inr_I:
  assumes "creatable js en em (nextObjectId s) (snapshot s)"
  shows "registerUserTransaction js en em nm pw s =
     (Inr (nextObjectId s, nextObjectId s + 2),
      s\<lparr>snapshot := created js en (nextObjectId s) em nm (Some pw) None EMAIL em (snapshot s),
        nextObjectId := nextObjectId s + 4\<rparr>)"
  using assms
  apply (simp add: registerUserTransaction_def creation_steps UserModel_findOne_def find_None_iff_ball split: option.splits if_splits)
  apply (auto simp: creatable_def created_def createdUser_def RoleModel_findOne_def
      updateOne_append_last)
  done

lemma loginOrCreateAccountTransaction_found:
  assumes "UserModel_findOne js em (snapshot s) = Some u"
  shows "loginOrCreateAccountTransaction js en prov provId dn em pic s = (Inr u, s)"
  using assms
  by (simp add: loginOrCreateAccountTransaction_def ioBind_def inSession_def query_def ioReturn_def)

lemma loginOrCreateAccountTransaction_Inr_D:
  assumes "loginOrCreateAccountTransaction js en prov provId dn em pic s = (Inr u, s')"
    and "UserModel_findOne js em (snapshot s) = None"
  shows "creatable js en em (nextObjectId s) (snapshot s)"
    and "u = createdUser js en (nextObjectId s) em dn None (orNull pic)"
    and "s' = s\<lparr>snapshot := created js en (nextObjectId s) em dn None (orNull pic) prov provId (snapshot s),
               nextObjectId := nextObjectId s + 4\<rparr>"
  using assms
    apply (simp_all add: loginOrCreateAccountTransaction_def creation_steps split: option.splits if_splits)
    apply (auto simp: creatable_def created_def createdUser_def RoleModel_findOne_def
      updateOne_append_last storedPassword_def)
  done

lemma creatable_findOne_None:
  "creatable js en em n d \<Longrightarrow> UserModel_findOne js em d = None"
  by (auto simp: creatable_def UserModel_findOne_def find_None_iff_ball)

lemma loginOrCreateAccountTransaction_Inr_I:
  assumes "creatable js en em (nextObjectId s) (snapshot s)"
  shows "loginOrCreateAccountTransaction js en prov provId dn em pic s =
     (Inr (createdUser js en (nextObjectId s) em dn None (orNull pic)),
      s\<lparr>snapshot := created js en (nextObjectId s) em dn None (orNull pic) prov provId (snapshot s),
        nextObjectId := nextObjectId s + 4\<rparr>)"
  using assms creatable_findOne_None[OF assms]
  apply (simp add: loginOrCreateAccountTransaction_def creation_steps split: option.splits if_splits)
  apply (auto simp: creatable_def created_def createdUser_def RoleModel_findOne_def
      updateOne_append_last storedPassword_def)
  done


section \<open>The services as a whole\<close>

lemma begun_simps [simp]:
  "snapshot (begun s) = durable s" "durable (begun s) = durable s"
  "nextObjectId (begun s) = nextObjectId s" "sessionLog (begun s) = [StartTransaction]"
  "sessionEnded (begun s) = False"
  by (simp_all add: begun_def)

lemma registerUserService_Inl:
  assumes "fst (registerUserService js en em nm pw s) = Inl e"
  shows "durable (snd (registerUserService js en em nm pw s)) = durable s"
    and "sessionLog (snd (registerUserService js en em nm pw s)) =
           [StartTransaction, AbortTransaction, EndSession]"
    and "fst (registerUserTransaction js en em nm pw (begun s)) = Inl e"
proof -
  obtain r s' where tx: "registerUserTransaction js en em nm pw (begun s) = (r, s')"
    by (cases "registerUserTransaction js en em nm pw (begun s)")
  from keepsD[OF keeps_registerUserTransaction tx]
  have k: "durable s' = durable s" "sessionLog s' = [StartTransaction]" by simp_all
  from assms tx have r: "r = Inl e"
    by (cases r) (simp_all add: registerUserService_alt)
  from tx r k show "durable (snd (registerUserService js en em nm pw s)) = durable s"
    and "sessionLog (snd (registerUserService js en em nm pw s)) =
           [StartTransaction, AbortTransaction, EndSession]"
    and "fst (registerUserTransaction js en em nm pw (begun s)) = Inl e"
    by (simp_all add: registerUserService_alt)
qed

lemma loginOrCreateAccountService_Inl:
  assumes "fst (loginOrCreateAccountService js en prov provId dn em pic s) = Inl e"
  shows "durable (snd (loginOrCreateAccountService js en prov provId dn em pic s)) = durable s"
    and "sessionLog (snd (loginOrCreateAccountService js en prov provId dn em pic s)) =
           [StartTransaction, AbortTransaction, EndSession]"
    and "fst (loginOrCreateAccountTransaction js en prov provId dn em pic (begun s)) = Inl e"
    and "UserModel_findOne js em (durable s) = None"
proof -
  let ?tx = "loginOrCreateAccountTransaction js en prov provId dn em pic (begun s)"
  obtain r s' where tx: "?tx = (r, s')" by (cases ?tx)
  from keepsD[OF keeps_loginOrCreateAccountTransaction tx]
  have k: "durable s' = durable s" "sessionLog s' = [StartTransaction]" by simp_all
  from assms tx have r: "r = Inl e"
    by (cases r) (simp_all add: loginOrCreateAccountService_alt)
  from tx r k show "durable (snd (loginOrCreateAccountService js en prov provId dn em pic s)) = durable s"
    and "sessionLog (snd (loginOrCreateAccountService js en prov provId dn em pic s)) =
           [StartTransaction, AbortTransaction, EndSession]"
    and "fst ?tx = Inl e"
    by (simp_all add: loginOrCreateAccountService_alt)
  show "UserModel_findOne js em (durable s) = None"
  proof (cases "UserModel_findOne js em (durable s)")
    case (Some u)
    then have "?tx = (Inr u, begun s)"
      by (simp add: loginOrCreateAccountTransaction_found)
    with tx r show ?thesis by simp
  qed simp
qed

lemma registerUserService_Inr_I:
  assumes "creatable js en em (nextObjectId s) (durable s)"
  shows "registerUserService js en em nm pw s =
     (Inr (nextObjectId s, nextObjectId s + 2),
      \<lparr>durable = created js en (nextObjectId s) em nm (Some pw) None EMAIL em (durable s),
       snapshot = created js en (nextObjectId s) em nm (Some pw) None EMAIL em (durable s),
       nextObjectId = nextObjectId s + 4,
       sessionEnded = True,
       sessionLog = [StartTransaction, CommitTransaction, EndSession]\<rparr>)"
  using assms
  by (simp add: registerUserService_alt registerUserTransaction_Inr_I begun_def)

lemma registerUserService_Inr_D:
  assumes "fst (registerUserService js en em nm pw s) = Inr r"
  shows "creatable js en em (nextObjectId s) (durable s)"
proof -
  obtain x s' where tx: "registerUserTransaction js en em nm pw (begun s) = (x, s')"
    by (cases "registerUserTransaction js en em nm pw (begun s)")
  from assms tx have "x = Inr r"
    by (cases x) (simp_all add: registerUserService_alt)
  with tx registerUserTransaction_Inr_D(1)[of js en em nm pw "begun s" r s'] show ?thesis
    by simp
qed

lemma loginOrCreateAccountService_found:
  assumes "UserModel_findOne js em (durable s) = Some u"
  shows "loginOrCreateAccountService js en prov provId dn em pic s =
     (Inr u, s\<lparr>snapshot := durable s, sessionEnded := True,
               sessionLog := [StartTransaction, CommitTransaction, EndSession]\<rparr>)"
  using assms
  by (simp add: loginOrCreateAccountService_alt loginOrCreateAccountTransaction_found begun_def)

lemma loginOrCreateAccountService_Inr_I:
  assumes "creatable js en em (nextObjectId s) (durable s)"
  shows "loginOrCreateAccountService js en prov provId dn em pic s =
     (Inr (createdUser js en (nextObjectId s) em dn None (orNull pic)),
      \<lparr>durable = created js en (nextObjectId s) em dn None (orNull pic) prov provId (durable s),
       snapshot = created js en (nextObjectId s) em dn None (orNull pic) prov provId (durable s),
       nextObjectId = nextObjectId s + 4,
       sessionEnded = True,
       sessionLog = [StartTransaction, CommitTransaction, EndSession]\<rparr>)"
  using assms
  by (simp add: loginOrCreateAccountService_alt loginOrCreateAccountTransaction_Inr_I begun_def)

lemma loginOrCreateAccountService_Inr_D:
  assumes "fst (loginOrCreateAccountService js en prov provId dn em pic s) = Inr u"
    and "UserModel_findOne js em (durable s) = None"
  shows "creatable js en em (nextObjectId s) (durable s)"
proof -
  let ?tx = "loginOrCreateAccountTransaction js en prov provId dn em pic (begun s)"
  obtain x s' where tx: "?tx = (x, s')" by (cases ?tx)
  from assms tx have "x = Inr u"
    by (cases x) (simp_all add: loginOrCreateAccountService_alt)
  with tx assms(2) loginOrCreateAccountTransaction_Inr_D(1)[of js en prov provId dn em pic "begun s" u s']
  show ?thesis by simp
qed


section \<open>The documents of a creation\<close>

lemma find_append_last: "find P xs = None \<Longrightarrow> P y \<Longrightarrow> find P (xs @ [y]) = Some y"
  by (induction xs) (simp_all split: if_splits)

lemma created_simps [simp]:
  "users (created js en n em nm pw pic prov provId d) = users d @ [createdUser js en n em nm pw pic]"
  "accounts (created js en n em nm pw pic prov provId d) =
     accounts d @ [\<lparr>account_id = n + 1, userId = n, provider = prov, providerId = provId\<rparr>]"
  "workspaces (created js en n em nm pw pic prov provId d) =
     workspaces d @
       [\<lparr>workspace_id = n + 2, workspaceName = ''My Workspace'',
         workspaceDescription = ''Workspace created for '' @ trim js nm, owner = n,
         inviteCode = generateInviteCode en\<rparr>]"
  "members (created js en n em nm pw pic prov provId d) =
     members d @
       [\<lparr>member_id = n + 3, memberUserId = n, workspaceId = n + 2,
         memberRole = role_id (the (RoleModel_findOne OWNER d)), joinedAt = currentDate en\<rparr>]"
  "roles (created js en n em nm pw pic prov provId d) = roles d"
  "projects (created js en n em nm pw pic prov provId d) = projects d"
  "tasks (created js en n em nm pw pic prov provId d) = tasks d"
  by (simp_all add: created_def)

lemma createdUser_simps [simp]:
  "user_id (createdUser js en n em nm pw pic) = n"
  "email (createdUser js en n em nm pw pic) = emailSetters js em"
  "password (createdUser js en n em nm pw pic) = storedPassword en pw"
  "currentWorkspace (createdUser js en n em nm pw pic) = Some (n + 2)"
  by (simp_all add: createdUser_def)

lemma findOne_created:
  assumes "creatable js en em n d"
  shows "UserModel_findOne js em (created js en n em nm pw pic prov provId d) =
           Some (createdUser js en n em nm pw pic)"
  using creatable_findOne_None[OF assms]
  by (simp add: UserModel_findOne_def find_append_last)

lemma filter_email_created:
  assumes "creatable js en em n d"
  shows "filter (\<lambda>u. email u = emailSetters js em)
           (users (created js en n em nm pw pic prov provId d)) = [createdUser js en n em nm pw pic]"
  using assms by (auto simp: creatable_def filter_empty_conv)

lemma registerUserService_exists:
  assumes "UserModel_findOne js em (durable s) = Some u"
  shows "registerUserService js en em nm pw s =
     (Inl (BadRequestException ''Email already exists''),
      s\<lparr>snapshot := durable s, sessionEnded := True,
        sessionLog := [StartTransaction, AbortTransaction, EndSession]\<rparr>)"
proof -
  from assms
  have "registerUserTransaction js en em nm pw (begun s) =
          (Inl (BadRequestException ''Email already exists''), begun s)"
    by (simp add: registerUserTransaction_def ioBind_def inSession_def query_def ioThrow_def)
  then show ?thesis
    by (simp add: registerUserService_alt begun_def)
qed

lemma freshIds_creatable:
  assumes "freshIds s" and "emailSetters js em \<noteq> []"
    and "UserModel_findOne js em (durable s) = None"
    and "RoleModel_findOne OWNER (durable s) \<noteq> None"
    and "generateInviteCode en \<noteq> []"
    and "\<forall>w \<in> set (workspaces (durable s)). inviteCode w \<noteq> generateInviteCode en"
  shows "creatable js en em (nextObjectId s) (durable s)"
  using assms
  by (fastforce simp: freshIds_def creatable_def UserModel_findOne_def find_None_iff_ball)

lemma onboardedIn_created:
  assumes "freshIds s" and "creatable js en em (nextObjectId s) (durable s)"
  shows "onboardedIn (nextObjectId s) (nextObjectId s + 2)
           (created js en (nextObjectId s) em nm pw pic prov provId (durable s))"
proof -
  let ?n = "nextObjectId s" and ?d = "durable s"
  from assms(2) obtain r where r: "RoleModel_findOne OWNER ?d = Some r"
    by (auto simp: creatable_def)
  then have rr: "r \<in> set (roles ?d)" "roleName r = OWNER"
    by (auto simp: RoleModel_findOne_def find_Some_iff)
  have ws: "filter (\<lambda>w. owner w = ?n) (workspaces ?d) = []"
    using assms(1) by (auto simp: freshIds_def filter_empty_conv)
  have acs: "filter (\<lambda>a. userId a = ?n) (accounts ?d) = []"
    using assms(1) by (auto simp: freshIds_def filter_empty_conv)
  have ms: "filter (\<lambda>m. memberUserId m = ?n) (members ?d) = []"
    using assms(1) by (auto simp: freshIds_def filter_empty_conv)
  have us: "filter (\<lambda>u. user_id u = ?n) (users ?d) = []"
    using assms(2) by (auto simp: creatable_def filter_empty_conv)
  from rr have ex: "list_ex (\<lambda>x. role_id x = role_id r \<and> roleName x = OWNER) (roles ?d)"
    by (auto simp: list_ex_iff)
  show ?thesis
    by (simp add: onboardedIn_def ws acs ms us r ex)
qed

lemma verifyUserService_Inr_I:
  assumes "AccountModel_findOne prov em (durable s) = Some a"
    and "UserModel_findById (userId a) (durable s) = Some u"
    and "comparePassword en u pw = Inr True"
  shows "verifyUserService en em pw prov s = (Inr (omitPassword u), s)"
  using assms
  by (simp add: verifyUserService_def ioBind_def direct_def query_def ioReturn_def)

lemma updateOne_map:
  assumes "updateOne P f xs = Some ys" and "\<And>x. g (f x) = g x"
  shows "map g ys = map g xs"
  using assms(1)
proof (induction xs arbitrary: ys)
  case Nil
  then show ?case by simp
next
  case (Cons x xs)
  then show ?case by (auto simp: assms(2) split: if_splits)
qed

lemma password_writeModified:
  "\<not> isModified ''password'' d \<Longrightarrow> password (writeModified d u) = password u"
  by (simp add: writeModified_def)


section \<open>ObjectIds stay unique\<close>

lemma advances_ioReturn: "advances (ioReturn x)"
  by (simp add: advances_def ioReturn_def)

lemma advances_ioThrow: "advances (ioThrow e)"
  by (simp add: advances_def ioThrow_def)

lemma advances_newObjectId: "advances newObjectId"
  by (simp add: advances_def newObjectId_def)

lemma advances_inSession: "advances (inSession f)"
  by (simp add: advances_def inSession_def split: sum.splits prod.splits)

lemma advances_ioBind:
  assumes "advances m" and "\<And>x. advances (f x)"
  shows "advances (ioBind m f)"
  unfolding advances_def
proof
  fix s
  obtain r s' where ms: "m s = (r, s')" by (cases "m s")
  from assms(1) ms have s': "nextObjectId s \<le> nextObjectId s'"
    unfolding advances_def by (metis snd_conv)
  show "nextObjectId s \<le> nextObjectId (snd (ioBind m f s))"
  proof (cases r)
    case (Inl e)
    with ms s' show ?thesis by (simp add: ioBind_def)
  next
    case (Inr x)
    from assms(2)[of x] have "nextObjectId s' \<le> nextObjectId (snd (f x s'))"
      unfolding advances_def by simp
    with Inr ms s' show ?thesis by (simp add: ioBind_def)
  qed
qed

lemma advances_case_option:
  "advances a \<Longrightarrow> (\<And>x. advances (b x)) \<Longrightarrow> advances (case v of None \<Rightarrow> a | Some x \<Rightarrow> b x)"
  by (cases v) simp_all

lemma advances_if: "advances a \<Longrightarrow> advances b \<Longrightarrow> advances (if c then a else b)"
  by simp

lemmas advances_intros =
  advances_ioBind advances_ioReturn advances_ioThrow advances_newObjectId advances_inSession
  advances_case_option advances_if

lemma advances_registerUserTransaction: "advances (registerUserTransaction js en em nm pw)"
  unfolding registerUserTransaction_def by (intro advances_intros)

lemma advances_loginOrCreateAccountTransaction:
  "advances (loginOrCreateAccountTransaction js en prov provId displayName em picture)"
  unfolding loginOrCreateAccountTransaction_def by (intro advances_intros)

lemma freshIds_mono:
  "freshIds s \<Longrightarrow> durable s' = durable s \<Longrightarrow> nextObjectId s \<le> nextObjectId s' \<Longrightarrow> freshIds s'"
  unfolding freshIds_def by (auto intro: less_le_trans)

lemma freshIds_created:
  assumes "freshIds s" and "durable s' = created js en (nextObjectId s) em nm pw pic prov provId (durable s)"
    and "nextObjectId s' = nextObjectId s + 4"
  shows "freshIds s'"
  using assms unfolding freshIds_def by (auto intro: less_le_trans)

lemma freshIds_registerUserService:
  assumes "freshIds s"
  shows "freshIds (snd (registerUserService js en em nm pw s))"
proof (cases "fst (registerUserService js en em nm pw s)")
  case (Inl e)
  obtain r s' where tx: "registerUserTransaction js en em nm pw (begun s) = (r, s')"
    by (cases "registerUserTransaction js en em nm pw (begun s)")
  from advances_registerUserTransaction[of js en em nm pw] tx
  have n: "nextObjectId s \<le> nextObjectId s'"
    unfolding advances_def by (metis begun_simps(3) snd_conv)
  from keepsD[OF keeps_registerUserTransaction tx] have d: "durable s' = durable s" by simp
  from tx n d
  have le: "nextObjectId s \<le> nextObjectId (snd (registerUserService js en em nm pw s))"
    by (cases r) (simp_all add: registerUserService_alt)
  from assms registerUserService_Inl(1)[OF Inl] le show ?thesis
    by (rule freshIds_mono)
next
  case (Inr ids)
  from registerUserService_Inr_D[OF Inr] have c: "creatable js en em (nextObjectId s) (durable s)" .
  show ?thesis
    by (rule freshIds_created[OF assms]) (simp_all add: registerUserService_Inr_I[OF c])
qed

lemma freshIds_loginOrCreateAccountService:
  assumes "freshIds s"
  shows "freshIds (snd (loginOrCreateAccountService js en prov provId dn em pic s))"
proof (cases "fst (loginOrCreateAccountService js en prov provId dn em pic s)")
  case (Inl e)
  let ?tx = "loginOrCreateAccountTransaction js en prov provId dn em pic (begun s)"
  obtain r s' where tx: "?tx = (r, s')" by (cases ?tx)
  from advances_loginOrCreateAccountTransaction[of js en prov provId dn em pic] tx
  have n: "nextObjectId s \<le> nextObjectId s'"
    unfolding advances_def by (metis begun_simps(3) snd_conv)
  from keepsD[OF keeps_loginOrCreateAccountTransaction tx] have d: "durable s' = durable s"
    by simp
  from tx n d
  have le: "nextObjectId s
      \<le> nextObjectId (snd (loginOrCreateAccountService js en prov provId dn em pic s))"
    by (cases r) (simp_all add: loginOrCreateAccountService_alt)
  from assms loginOrCreateAccountService_Inl(1)[OF Inl] le show ?thesis
    by (rule freshIds_mono)
next
  case (Inr u)
  show ?thesis
  proof (cases "UserModel_findOne js em (durable s)")
    case (Some v)
    from assms show ?thesis
      by (rule freshIds_mono) (simp_all add: loginOrCreateAccountService_found[OF Some])
  next
    case None
    from loginOrCreateAccountService_Inr_D[OF Inr None]
    have c: "creatable js en em (nextObjectId s) (durable s)" .
    show ?thesis
      by (rule freshIds_created[OF assms]) (simp_all add: loginOrCreateAccountService_Inr_I[OF c])
  qed
qed


section \<open>The example configuration\<close>

lemma register_Ada:
  "fst (registerUserService exampleJs exampleEnv '' Ada@Example.com'' ''Ada'' ''s3cret'' (stateOf seededDb 10))
     = Inr (10, 12)"
  by code_simp

lemma norm_Ada: "emailSetters exampleJs '' Ada@Example.com'' = ''ada@example.com''"
  by code_simp

lemma login_Ada:
  "fst (loginOrCreateAccountService exampleJs exampleEnv GOOGLE ''g-1'' ''Ada'' ''Ada@Example.com'' None
          (stateOf seededDb 10))
     = Inr \<lparr>user_id = 10, name = ''Ada'', email = ''ada@example.com'', password = None,
             profilePicture = None, currentWorkspace = Some 12, isActive = True,
             lastLogin = None\<rparr>"
  by code_simp

lemma freshIds_seeded: "freshIds (stateOf seededDb 10)"
  by (simp add: freshIds_def stateOf_def seededDb_def emptyDb_def)

lemma findOne_seeded: "UserModel_findOne js em (durable (stateOf seededDb 10)) = None"
  by (simp add: UserModel_findOne_def stateOf_def seededDb_def emptyDb_def)

lemma seeded_facts:
  "AccountModel_findOne EMAIL em (durable (stateOf seededDb 10)) = None"
  "RoleModel_findOne OWNER (durable (stateOf seededDb 10)) \<noteq> None"
  "generateInviteCode exampleEnv \<noteq> []"
  "\<forall>w \<in> set (workspaces (durable (stateOf seededDb 10))). inviteCode w \<noteq> generateInviteCode exampleEnv"
  "compareValue exampleEnv pw (Some (hashValue exampleEnv pw)) = Inr True"
  by (simp_all add: AccountModel_findOne_def RoleModel_findOne_def stateOf_def seededDb_def
      emptyDb_def exampleEnv_def)

lemma verify_Ada_facts:
  "AccountModel_findOne EMAIL ''bob@example.com''
     (durable (snd (registerUserService exampleJs exampleEnv ''ada@example.com'' ''Ada'' ''s3cret''
        (stateOf seededDb 10)))) = None"
  "AccountModel_findOne EMAIL ''ada@example.com''
     (durable (snd (registerUserService exampleJs exampleEnv ''ada@example.com'' ''Ada'' ''s3cret''
        (stateOf seededDb 10)))) =
     Some \<lparr>account_id = 11, userId = 10, provider = EMAIL, providerId = ''ada@example.com''\<rparr>"
  "UserModel_findById 10
     (durable (snd (registerUserService exampleJs exampleEnv ''ada@example.com'' ''Ada'' ''s3cret''
        (stateOf seededDb 10)))) =
     Some \<lparr>user_id = 10, name = ''Ada'', email = ''ada@example.com'',
            password = Some ''$2b$10$s3cret'', profilePicture = None,
            currentWorkspace = Some 12, isActive = True, lastLogin = None\<rparr>"
  "comparePassword exampleEnv
     \<lparr>user_id = 10, name = ''Ada'', email = ''ada@example.com'',
            password = Some ''$2b$10$s3cret'', profilePicture = None,
            currentWorkspace = Some 12, isActive = True, lastLogin = None\<rparr> ''guess''
     = Inr False"
  by code_simp+


section \<open>Rollback of a failed onboarding\<close>

lemma register_unseeded:
  "fst (registerUserService exampleJs exampleEnv ''ada@example.com'' ''Ada'' ''s3cret'' (stateOf emptyDb 10))
     = Inl (NotFoundException ''Owner role not found'')"
  by code_simp

lemma login_unseeded:
  "fst (loginOrCreateAccountService exampleJs exampleEnv GOOGLE ''g-1'' ''Ada'' ''ada@example.com'' None
          (stateOf emptyDb 10))
     = Inl (NotFoundException ''Owner role not found'')"
  by code_simp

text \<open>C1. Whenever \<open>registerUserService\<close> or \<open>loginOrCreateAccountService\<close> throws, the
  transaction has been aborted and not committed, the database is what it was before the
  call, so that no User, Account, Workspace or Member of the invocation persists, and the
  error the caller gets is the one that the steps of the transaction threw.
  \<open>loginOrCreateAccountService\<close> throws in its creation branch only: no User had the
  email.\<close>

theorem failed_onboarding_is_rolled_back:
  "(fst (registerUserService js en em nm pw s) = Inl e \<longrightarrow>
      durable (snd (registerUserService js en em nm pw s)) = durable s \<and>
      AbortTransaction \<in> set (sessionLog (snd (registerUserService js en em nm pw s))) \<and>
      CommitTransaction \<notin> set (sessionLog (snd (registerUserService js en em nm pw s))) \<and>
      fst (registerUserTransaction js en em nm pw (begun s)) = Inl e) \<and>
   (fst (loginOrCreateAccountService js en prov provId dn em pic s) = Inl e \<longrightarrow>
      UserModel_findOne js em (durable s) = None \<and>
      durable (snd (loginOrCreateAccountService js en prov provId dn em pic s)) = durable s \<and>
      AbortTransaction \<in>
        set (sessionLog (snd (loginOrCreateAccountService js en prov provId dn em pic s))) \<and>
      CommitTransaction \<notin>
        set (sessionLog (snd (loginOrCreateAccountService js en prov provId dn em pic s))) \<and>
      fst (loginOrCreateAccountTransaction js en prov provId dn em pic (begun s)) = Inl e)"
  by (simp add: registerUserService_Inl loginOrCreateAccountService_Inl)

text \<open>In a database without the OWNER role both services throw the NotFound error of the
  missing role, and the database stays empty.\<close>

theorem failed_onboarding_is_rolled_back_witness:
  "fst (registerUserService exampleJs exampleEnv ''ada@example.com'' ''Ada'' ''s3cret'' (stateOf emptyDb 10))
     = Inl (NotFoundException ''Owner role not found'') \<and>
   durable (snd (registerUserService exampleJs exampleEnv ''ada@example.com'' ''Ada'' ''s3cret''
                  (stateOf emptyDb 10)))
     = emptyDb \<and>
   fst (loginOrCreateAccountService exampleJs exampleEnv GOOGLE ''g-1'' ''Ada'' ''ada@example.com'' None
          (stateOf emptyDb 10))
     = Inl (NotFoundException ''Owner role not found'') \<and>
   durable (snd (loginOrCreateAccountService exampleJs exampleEnv GOOGLE ''g-1'' ''Ada''
                  ''ada@example.com'' None (stateOf emptyDb 10)))
     = emptyDb"
  using failed_onboarding_is_rolled_back[of exampleJs exampleEnv "''ada@example.com''" "''Ada''"
      "''s3cret''" "stateOf emptyDb 10" "NotFoundException ''Owner role not found''" GOOGLE
      "''g-1''" "''Ada''" None]
    register_unseeded login_unseeded
  by (simp add: stateOf_def)


section \<open>Registration followed by verification\<close>

text \<open>C2. As stated the claim fails: the User schema trims and lower-cases the email, so the
  User that \<open>verifyUserService\<close> returns after a registration with the email
  \<^verbatim>\<open>Ada@Example.com\<close> has the email \<^verbatim>\<open>ada@example.com\<close>.\<close>

theorem register_then_verify_counterexample:
  "fst (registerUserService exampleJs exampleEnv ''Ada@Example.com'' ''Ada'' ''s3cret'' (stateOf seededDb 10))
     = Inr (10, 12) \<and>
   fst (verifyUserService exampleEnv ''Ada@Example.com'' ''s3cret'' EMAIL
          (snd (registerUserService exampleJs exampleEnv ''Ada@Example.com'' ''Ada'' ''s3cret''
                  (stateOf seededDb 10))))
     = Inr \<lparr>user_id = 10, name = ''Ada'', email = ''ada@example.com'', password = None,
             profilePicture = None, currentWorkspace = Some 12, isActive = True,
             lastLogin = None\<rparr> \<and>
   ''ada@example.com'' \<noteq> ''Ada@Example.com''"
  by code_simp

text \<open>C2, amended. Let the email not be registered: its stored form (what the setters of
  the email path make of it, trimmed and lower-cased) is non-empty, no stored User has that
  stored form as its email, and no stored EMAIL Account has the email as its provider id.
  Let the OWNER role be stored, the ObjectIds be unique, and the generated invite code be
  non-empty and that of no Workspace. Let the password be non-empty, and let the hashing
  utility accept the password against its own hash. Then, for every name,
  \<open>registerUserService\<close> succeeds, and \<open>verifyUserService\<close> with the same email and password
  succeeds afterwards and returns the new User, with the stored form of the email as its
  email and without a password field.\<close>

theorem register_then_verify_amended:
  assumes "freshIds s"
    and "emailSetters js em \<noteq> []"
    and "UserModel_findOne js em (durable s) = None"
    and "AccountModel_findOne EMAIL em (durable s) = None"
    and "RoleModel_findOne OWNER (durable s) \<noteq> None"
    and "generateInviteCode en \<noteq> []"
    and "\<forall>w \<in> set (workspaces (durable s)). inviteCode w \<noteq> generateInviteCode en"
    and "pw \<noteq> []"
    and "compareValue en' pw (Some (hashValue en pw)) = Inr True"
  shows "\<exists>uid wid u.
           fst (registerUserService js en em nm pw s) = Inr (uid, wid) \<and>
           fst (verifyUserService en' em pw EMAIL (snd (registerUserService js en em nm pw s)))
             = Inr u \<and>
           user_id u = uid \<and> email u = emailSetters js em \<and> password u = None"
proof -
  let ?n = "nextObjectId s"
  let ?U = "createdUser js en ?n em nm (Some pw) None"
  from freshIds_creatable[OF assms(1,2,3,5,6,7)]
  have c: "creatable js en em ?n (durable s)" .
  note first = registerUserService_Inr_I[OF c, of nm pw]
  let ?s1 = "snd (registerUserService js en em nm pw s)"
  have d1: "durable ?s1 = created js en ?n em nm (Some pw) None EMAIL em (durable s)"
    by (simp add: first)
  have acc: "AccountModel_findOne EMAIL em (durable ?s1) =
               Some \<lparr>account_id = ?n + 1, userId = ?n, provider = EMAIL, providerId = em\<rparr>"
    using assms(4) unfolding d1 by (simp add: AccountModel_findOne_def find_append_last)
  from c have "find (\<lambda>u. user_id u = ?n) (users (durable s)) = None"
    by (auto simp: creatable_def find_None_iff_ball)
  then have usr: "UserModel_findById ?n (durable ?s1) = Some ?U"
    unfolding d1 by (simp add: UserModel_findById_def find_append_last)
  have cmp: "comparePassword en' ?U pw = Inr True"
    using assms(8,9) by (simp add: comparePassword_def storedPassword_def)
  from verifyUserService_Inr_I[OF acc _ cmp] usr
  have "verifyUserService en' em pw EMAIL ?s1 = (Inr (omitPassword ?U), ?s1)" by simp
  then show ?thesis
    by (simp add: first omitPassword_def)
qed

theorem register_then_verify_amended_witness:
  "\<exists>u. fst (registerUserService exampleJs exampleEnv '' Ada@Example.com'' ''Ada'' ''s3cret''
            (stateOf seededDb 10)) = Inr (10, 12) \<and>
        fst (verifyUserService exampleEnv '' Ada@Example.com'' ''s3cret'' EMAIL
              (snd (registerUserService exampleJs exampleEnv '' Ada@Example.com'' ''Ada'' ''s3cret''
                      (stateOf seededDb 10)))) = Inr u \<and>
        user_id u = 10 \<and> email u = ''ada@example.com'' \<and> password u = None"
proof -
  have ne: "emailSetters exampleJs '' Ada@Example.com'' \<noteq> []" "''s3cret'' \<noteq> []"
    by (simp_all add: norm_Ada)
  from register_then_verify_amended[OF freshIds_seeded ne(1) findOne_seeded seeded_facts(1-4)
      ne(2) seeded_facts(5), of "''Ada''"]
  show ?thesis
    by (auto simp: register_Ada norm_Ada)
qed


section \<open>Registering an email twice\<close>

text \<open>C3. As stated the claim fails for an email that is not in its stored form: after two
  registrations with \<^verbatim>\<open>Ada@Example.com\<close> the second has thrown BadRequest, and the one
  User stored has the email \<^verbatim>\<open>ada@example.com\<close>; no User has the email as it was given.\<close>

theorem register_twice_counterexample:
  "fst (registerUserService exampleJs exampleEnv ''Ada@Example.com'' ''Ada'' ''s3cret'' (stateOf seededDb 10))
     = Inr (10, 12) \<and>
   fst (registerUserService exampleJs exampleEnv ''Ada@Example.com'' ''Ada'' ''s3cret''
          (snd (registerUserService exampleJs exampleEnv ''Ada@Example.com'' ''Ada'' ''s3cret''
                  (stateOf seededDb 10))))
     = Inl (BadRequestException ''Email already exists'') \<and>
   map email (users (durable (snd (registerUserService exampleJs exampleEnv ''Ada@Example.com'' ''Ada'' ''s3cret''
          (snd (registerUserService exampleJs exampleEnv ''Ada@Example.com'' ''Ada'' ''s3cret''
                  (stateOf seededDb 10)))))))
     = [''ada@example.com''] \<and>
   count_list (map email (users (durable (snd (registerUserService exampleJs exampleEnv ''Ada@Example.com'' ''Ada'' ''s3cret''
          (snd (registerUserService exampleJs exampleEnv ''Ada@Example.com'' ''Ada'' ''s3cret''
                  (stateOf seededDb 10)))))))) ''Ada@Example.com'' = 0"
  by code_simp

text \<open>C3, amended. When \<open>registerUserService\<close> has succeeded for an email, a second call with
  that email, whatever the name and the password, throws BadRequest, and afterwards exactly
  one User is stored whose email is the stored form of that email: what the setters of the
  email path make of it, trimmed and lower-cased.\<close>

theorem register_twice_amended:
  assumes "fst (registerUserService js en em nm pw s) = Inr ids"
  shows "fst (registerUserService js en' em nm' pw' (snd (registerUserService js en em nm pw s)))
           = Inl (BadRequestException ''Email already exists'') \<and>
         length (filter (\<lambda>u. email u = emailSetters js em)
           (users (durable (snd (registerUserService js en' em nm' pw'
              (snd (registerUserService js en em nm pw s))))))) = 1"
proof -
  let ?n = "nextObjectId s"
  from registerUserService_Inr_D[OF assms] have c: "creatable js en em ?n (durable s)" .
  note first = registerUserService_Inr_I[OF c, of nm pw]
  let ?s1 = "snd (registerUserService js en em nm pw s)"
  have d1: "durable ?s1 = created js en ?n em nm (Some pw) None EMAIL em (durable s)"
    by (simp add: first)
  have f: "UserModel_findOne js em (durable ?s1) = Some (createdUser js en ?n em nm (Some pw) None)"
    unfolding d1 by (rule findOne_created[OF c])
  note second = registerUserService_exists[OF f, of en' nm' pw']
  show ?thesis
    by (simp add: second d1 filter_email_created[OF c] del: created_simps)
qed

theorem register_twice_amended_witness:
  "fst (registerUserService exampleJs exampleEnv '' Ada@Example.com'' ''Ada'' ''s3cret'' (stateOf seededDb 10))
     = Inr (10, 12) \<and>
   fst (registerUserService exampleJs exampleEnv '' Ada@Example.com'' ''Bea'' ''other''
          (snd (registerUserService exampleJs exampleEnv '' Ada@Example.com'' ''Ada'' ''s3cret''
                  (stateOf seededDb 10))))
     = Inl (BadRequestException ''Email already exists'') \<and>
   length (filter (\<lambda>u. email u = ''ada@example.com'')
     (users (durable (snd (registerUserService exampleJs exampleEnv '' Ada@Example.com'' ''Bea'' ''other''
          (snd (registerUserService exampleJs exampleEnv '' Ada@Example.com'' ''Ada'' ''s3cret''
                  (stateOf seededDb 10)))))))) = 1"
  using register_twice_amended[OF register_Ada, of exampleEnv "''Bea''" "''other''"] register_Ada
  by (simp only: norm_Ada simp_thms)


section \<open>What a successful onboarding leaves\<close>

text \<open>C4. After a successful \<open>registerUserService\<close>, and after a successful
  \<open>loginOrCreateAccountService\<close> for an email that no User had, in a state whose ObjectId
  generator is ahead of the stored ids: exactly one Workspace is owned by the new User,
  exactly one Account belongs to it, exactly one Member joins it, to that Workspace and
  with the OWNER role, and the new User's current workspace is that Workspace.\<close>

theorem onboarding_creates_one_of_each:
  "(freshIds s \<and> fst (registerUserService js en em nm pw s) = Inr (uid, wid) \<longrightarrow>
      onboardedIn uid wid (durable (snd (registerUserService js en em nm pw s)))) \<and>
   (freshIds s \<and> UserModel_findOne js em (durable s) = None \<and>
    fst (loginOrCreateAccountService js en prov provId dn em pic s) = Inr u \<longrightarrow>
      (\<exists>w. currentWorkspace u = Some w \<and>
        onboardedIn (user_id u) w
          (durable (snd (loginOrCreateAccountService js en prov provId dn em pic s)))))"
proof (intro conjI impI)
  assume a: "freshIds s \<and> fst (registerUserService js en em nm pw s) = Inr (uid, wid)"
  then have c: "creatable js en em (nextObjectId s) (durable s)"
    by (auto dest: registerUserService_Inr_D)
  note first = registerUserService_Inr_I[OF c, of nm pw]
  from a first have ids: "uid = nextObjectId s" "wid = nextObjectId s + 2" by simp_all
  from a have fr: "freshIds s" by simp
  have "onboardedIn (nextObjectId s) (nextObjectId s + 2)
      (created js en (nextObjectId s) em nm (Some pw) None EMAIL em (durable s))"
    by (rule onboardedIn_created[OF fr c])
  with ids show "onboardedIn uid wid (durable (snd (registerUserService js en em nm pw s)))"
    by (simp add: first)
next
  assume a: "freshIds s \<and> UserModel_findOne js em (durable s) = None \<and>
    fst (loginOrCreateAccountService js en prov provId dn em pic s) = Inr u"
  then have c: "creatable js en em (nextObjectId s) (durable s)"
    by (auto dest: loginOrCreateAccountService_Inr_D)
  note first = loginOrCreateAccountService_Inr_I[OF c, of prov provId dn pic]
  from a first have u: "u = createdUser js en (nextObjectId s) em dn None (orNull pic)" by simp
  from a have fr: "freshIds s" by simp
  have "onboardedIn (nextObjectId s) (nextObjectId s + 2)
      (created js en (nextObjectId s) em dn None (orNull pic) prov provId (durable s))"
    by (rule onboardedIn_created[OF fr c])
  with u show "\<exists>w. currentWorkspace u = Some w \<and>
        onboardedIn (user_id u) w
          (durable (snd (loginOrCreateAccountService js en prov provId dn em pic s)))"
    by (simp add: first)
qed

theorem onboarding_creates_one_of_each_witness:
  "onboardedIn 10 12
     (durable (snd (registerUserService exampleJs exampleEnv '' Ada@Example.com'' ''Ada'' ''s3cret''
        (stateOf seededDb 10)))) \<and>
   onboardedIn 10 12
     (durable (snd (loginOrCreateAccountService exampleJs exampleEnv GOOGLE ''g-1'' ''Ada''
        ''Ada@Example.com'' None (stateOf seededDb 10))))"
  using onboarding_creates_one_of_each[where s = "stateOf seededDb 10" and js = exampleJs and en = exampleEnv
      and em = "'' Ada@Example.com''" and nm = "''Ada''" and pw = "''s3cret''" and uid = 10
      and wid = 12]
    onboarding_creates_one_of_each[where s = "stateOf seededDb 10" and js = exampleJs and en = exampleEnv
      and em = "''Ada@Example.com''" and prov = GOOGLE and provId = "''g-1''" and dn = "''Ada''"
      and pic = None
      and u = "\<lparr>user_id = 10, name = ''Ada'', email = ''ada@example.com'', password = None,
             profilePicture = None, currentWorkspace = Some 12, isActive = True,
             lastLogin = None\<rparr>"]
    register_Ada login_Ada freshIds_seeded findOne_seeded
  by simp


section \<open>Logging in twice\<close>

text \<open>C5. When \<open>loginOrCreateAccountService\<close> has returned a User for an email, a second call
  with that email, whatever its other arguments, returns the same User (so the same id)
  and leaves every collection of the database as the first call left it.\<close>

theorem loginOrCreate_twice_is_idempotent:
  assumes "fst (loginOrCreateAccountService js en prov provId dn em pic s) = Inr u"
  shows "fst (loginOrCreateAccountService js en' prov' provId' dn' em pic'
                (snd (loginOrCreateAccountService js en prov provId dn em pic s))) = Inr u \<and>
         durable (snd (loginOrCreateAccountService js en' prov' provId' dn' em pic'
                (snd (loginOrCreateAccountService js en prov provId dn em pic s)))) =
         durable (snd (loginOrCreateAccountService js en prov provId dn em pic s))"
proof (cases "UserModel_findOne js em (durable s)")
  case (Some v)
  note first = loginOrCreateAccountService_found[OF Some, of en prov provId dn pic]
  from assms first have uv: "u = v" by simp
  let ?s1 = "snd (loginOrCreateAccountService js en prov provId dn em pic s)"
  have "UserModel_findOne js em (durable ?s1) = Some v"
    by (simp add: first Some)
  from loginOrCreateAccountService_found[OF this, of en' prov' provId' dn' pic'] uv
  show ?thesis by simp
next
  case None
  let ?n = "nextObjectId s"
  from loginOrCreateAccountService_Inr_D[OF assms None]
  have c: "creatable js en em ?n (durable s)" .
  note first = loginOrCreateAccountService_Inr_I[OF c, of prov provId dn pic]
  from assms first have u: "u = createdUser js en ?n em dn None (orNull pic)" by simp
  let ?s1 = "snd (loginOrCreateAccountService js en prov provId dn em pic s)"
  have d1: "durable ?s1 = created js en ?n em dn None (orNull pic) prov provId (durable s)"
    by (simp add: first)
  have "UserModel_findOne js em (durable ?s1) = Some u"
    unfolding d1 u by (rule findOne_created[OF c])
  from loginOrCreateAccountService_found[OF this, of en' prov' provId' dn' pic']
  show ?thesis by simp
qed

theorem loginOrCreate_twice_is_idempotent_witness:
  "fst (loginOrCreateAccountService exampleJs exampleEnv GITHUB ''gh-7'' ''A. L.'' ''Ada@Example.com'' None
          (snd (loginOrCreateAccountService exampleJs exampleEnv GOOGLE ''g-1'' ''Ada'' ''Ada@Example.com''
                  None (stateOf seededDb 10))))
     = Inr \<lparr>user_id = 10, name = ''Ada'', email = ''ada@example.com'', password = None,
             profilePicture = None, currentWorkspace = Some 12, isActive = True,
             lastLogin = None\<rparr> \<and>
   durable (snd (loginOrCreateAccountService exampleJs exampleEnv GITHUB ''gh-7'' ''A. L.''
                  ''Ada@Example.com'' None
          (snd (loginOrCreateAccountService exampleJs exampleEnv GOOGLE ''g-1'' ''Ada'' ''Ada@Example.com''
                  None (stateOf seededDb 10)))))
     = durable (snd (loginOrCreateAccountService exampleJs exampleEnv GOOGLE ''g-1'' ''Ada''
                  ''Ada@Example.com'' None (stateOf seededDb 10)))"
  using loginOrCreate_twice_is_idempotent[OF login_Ada, of exampleEnv GITHUB "''gh-7''" "''A. L.''" None]
  by simp


section \<open>Failures of the verification\<close>

text \<open>C6. \<open>verifyUserService\<close> throws NotFound when no EMAIL Account is stored under the email,
  and Unauthorized when the Account and its User are stored and the password does not
  match; the two errors carry the same message. (Their kinds differ.)\<close>

theorem verify_failures_share_message:
  assumes "AccountModel_findOne EMAIL em1 (durable s1) = None"
    and "AccountModel_findOne EMAIL em2 (durable s2) = Some a"
    and "UserModel_findById (userId a) (durable s2) = Some u"
    and "comparePassword en u pw2 = Inr False"
  shows "fst (verifyUserService en em1 pw1 EMAIL s1) =
           Inl (NotFoundException ''Invalid email or password'') \<and>
         fst (verifyUserService en em2 pw2 EMAIL s2) =
           Inl (UnauthorizedException ''Invalid email or password'') \<and>
         thrownMessage (fst (verifyUserService en em1 pw1 EMAIL s1)) =
           thrownMessage (fst (verifyUserService en em2 pw2 EMAIL s2))"
  using assms
  by (simp add: verifyUserService_def ioBind_def direct_def query_def ioThrow_def
      thrownMessage_def)

theorem verify_failures_share_message_witness:
  "fst (verifyUserService exampleEnv ''bob@example.com'' ''s3cret'' EMAIL
     (snd (registerUserService exampleJs exampleEnv ''ada@example.com'' ''Ada'' ''s3cret''
        (stateOf seededDb 10)))) = Inl (NotFoundException ''Invalid email or password'') \<and>
   fst (verifyUserService exampleEnv ''ada@example.com'' ''guess'' EMAIL
     (snd (registerUserService exampleJs exampleEnv ''ada@example.com'' ''Ada'' ''s3cret''
        (stateOf seededDb 10)))) = Inl (UnauthorizedException ''Invalid email or password'') \<and>
   thrownMessage (fst (verifyUserService exampleEnv ''bob@example.com'' ''s3cret'' EMAIL
     (snd (registerUserService exampleJs exampleEnv ''ada@example.com'' ''Ada'' ''s3cret''
        (stateOf seededDb 10))))) =
   thrownMessage (fst (verifyUserService exampleEnv ''ada@example.com'' ''guess'' EMAIL
     (snd (registerUserService exampleJs exampleEnv ''ada@example.com'' ''Ada'' ''s3cret''
        (stateOf seededDb 10)))))"
  using verify_failures_share_message[OF verify_Ada_facts(1) _ _ verify_Ada_facts(4),
      OF verify_Ada_facts(2), of "''s3cret''"] verify_Ada_facts(3)
  by (simp add: thrownMessage_def)


section \<open>Hashing of the password\<close>

lemma preSave_hashes:
  "isModified ''password'' d \<Longrightarrow> password (doc d) = Some p \<Longrightarrow> p \<noteq> [] \<Longrightarrow>
     password (doc (preSave en d)) = Some (hashValue en p)"
  by (simp add: preSave_def)

lemma preSave_unmodified: "\<not> isModified ''password'' d \<Longrightarrow> preSave en d = d"
  by (simp add: preSave_def)

lemma insert_stores_hash:
  assumes "isNew d" and "isModified ''password'' d" and "password (doc d) = Some p"
    and "p \<noteq> []" and "UserModel_save en d b = Inr (d', b')"
  shows "map password (users b') = map password (users b) @ [Some (hashValue en p)]"
  using assms by (auto simp: UserModel_save_def preSave_def Let_def split: if_splits)

lemma update_keeps_passwords:
  assumes "\<not> isNew d" and "\<not> isModified ''password'' d"
    and "UserModel_save en d b = Inr (d', b')"
  shows "map password (users b') = map password (users b)"
    and "password (doc d') = password (doc d)"
proof -
  from assms(2) have pre: "preSave en d = d" by (simp add: preSave_def)
  from assms pre obtain us where
    us: "updateOne (\<lambda>u. user_id u = user_id (doc d)) (writeModified d) (users b) = Some us"
    and b': "b' = b\<lparr>users := us\<rparr>" and d': "d' = d\<lparr>isNew := False, modifiedPaths := []\<rparr>"
    by (auto simp: UserModel_save_def Let_def split: if_splits option.splits)
  from assms(2) have "\<And>x. password (writeModified d x) = password x"
    by (simp add: password_writeModified)
  from updateOne_map[OF us, of password, OF this] b'
  show "map password (users b') = map password (users b)" by simp
  from d' show "password (doc d') = password (doc d)" by simp
qed

lemma register_stores_hash:
  assumes "pw \<noteq> []" and "fst (registerUserService js en em nm pw s) = Inr (uid, wid)"
  shows "map password (filter (\<lambda>u. user_id u = uid)
        (users (durable (snd (registerUserService js en em nm pw s))))) = [Some (hashValue en pw)]"
proof -
  from assms(2) have c: "creatable js en em (nextObjectId s) (durable s)"
    by (rule registerUserService_Inr_D)
  note first = registerUserService_Inr_I[OF c, of nm pw]
  from assms(2) first have uid: "uid = nextObjectId s" by simp
  from c have "filter (\<lambda>u. user_id u = nextObjectId s) (users (durable s)) = []"
    by (auto simp: creatable_def filter_empty_conv)
  with assms(1) uid show ?thesis
    by (simp add: first storedPassword_def)
qed

text \<open>C7. As stated the claim fails for the empty password: the hook hashes a password only if
  it is truthy, so a registration with the password \<^verbatim>\<open>""\<close> stores the empty string itself,
  which is not what the hashing utility returns for it.\<close>

theorem password_hashing_counterexample:
  "fst (registerUserService exampleJs exampleEnv ''ada@example.com'' ''Ada'' [] (stateOf seededDb 10))
     = Inr (10, 12) \<and>
   map password
     (users (durable (snd (registerUserService exampleJs exampleEnv ''ada@example.com'' ''Ada'' []
        (stateOf seededDb 10))))) = [Some []]  \<and>
   hashValue exampleEnv [] = ''$2b$10$''"
  by code_simp

text \<open>C7, amended. The pre-save hook replaces a modified, non-empty password by its hash and
  leaves a document whose password is not modified as it is. Accordingly the insert of a new
  User document with a non-empty password stores the hash, a later save of the document
  without a modified password changes no stored password, and after a successful
  \<open>registerUserService\<close> with a non-empty password, with its two saves, the new User's
  stored password is the hash of the password given, hashed once.\<close>

theorem password_hashing_amended:
  "(isModified ''password'' d \<and> password (doc d) = Some p \<and> p \<noteq> [] \<longrightarrow>
      password (doc (preSave en d)) = Some (hashValue en p)) \<and>
   (\<not> isModified ''password'' d \<longrightarrow> preSave en d = d) \<and>
   (isNew d \<and> isModified ''password'' d \<and> password (doc d) = Some p \<and> p \<noteq> [] \<and>
    UserModel_save en d b = Inr (d', b') \<longrightarrow>
      map password (users b') = map password (users b) @ [Some (hashValue en p)]) \<and>
   (\<not> isNew d \<and> \<not> isModified ''password'' d \<and> UserModel_save en d b = Inr (d', b') \<longrightarrow>
      map password (users b') = map password (users b) \<and> password (doc d') = password (doc d)) \<and>
   (pw \<noteq> [] \<and> fst (registerUserService js en em nm pw s) = Inr (uid, wid) \<longrightarrow>
      map password (filter (\<lambda>u. user_id u = uid)
        (users (durable (snd (registerUserService js en em nm pw s))))) = [Some (hashValue en pw)])"
  using preSave_hashes[of d p en] preSave_unmodified[of d en]
    insert_stores_hash[of d p en b d' b'] update_keeps_passwords[of d en b d' b']
    register_stores_hash[of pw js en em nm s uid wid]
  by blast

theorem password_hashing_amended_witness:
  "map password (filter (\<lambda>u. user_id u = 10)
     (users (durable (snd (registerUserService exampleJs exampleEnv '' Ada@Example.com'' ''Ada'' ''s3cret''
        (stateOf seededDb 10)))))) = [Some ''$2b$10$s3cret'']"
proof -
  have ne: "''s3cret'' \<noteq> []" by simp
  note registered = password_hashing_amended[where pw = "''s3cret''" and js = exampleJs and en = exampleEnv
      and em = "'' Ada@Example.com''" and nm = "''Ada''" and s = "stateOf seededDb 10"
      and uid = 10 and wid = 12, THEN conjunct2, THEN conjunct2, THEN conjunct2, THEN conjunct2]
  have hv: "hashValue exampleEnv ''s3cret'' = ''$2b$10$s3cret''"
    by (simp add: exampleEnv_def)
  from registered ne register_Ada show ?thesis by (simp add: hv)
qed


section \<open>Release of the session\<close>






section \<open>Analytics of a project\<close>

lemma countOrZero_countStage: "countOrZero (countStage xs) = length xs"
  by (cases xs) (simp_all add: countOrZero_def countStage_def)

lemma length_filter_mono:
  "(\<And>x. P x \<Longrightarrow> Q x) \<Longrightarrow> length (filter P xs) \<le> length (filter Q xs)"
  by (induction xs) auto

lemma getProjectAnalyticsService_found:
  assumes "ProjectModel_findById pid (durable s) = Some p" and "projectWorkspace p = wid"
  shows "getProjectAnalyticsService en wid pid s =
     (Inr \<lparr>totalTasks = length (filter (\<lambda>t. taskProject t = pid) (tasks (durable s))),
            overdueTasks = length (filter (overdue (currentDate en))
               (filter (\<lambda>t. taskProject t = pid) (tasks (durable s)))),
            completedTasks = length (filter (\<lambda>t. status t = DONE)
               (filter (\<lambda>t. taskProject t = pid) (tasks (durable s))))\<rparr>, s)"
  using assms
  by (simp add: getProjectAnalyticsService_def ioBind_def direct_def query_def ioReturn_def
      TaskModel_aggregate_def Let_def countOrZero_countStage)

lemma getProjectAnalyticsService_Inr_D:
  assumes "fst (getProjectAnalyticsService en wid pid s) = Inr a"
  shows "\<exists>p. ProjectModel_findById pid (durable s) = Some p \<and> projectWorkspace p = wid"
  using assms
  by (auto simp: getProjectAnalyticsService_def ioBind_def direct_def query_def ioThrow_def
      split: option.splits if_splits)

lemma analytics_of_result:
  assumes "fst (getProjectAnalyticsService en wid pid s) = Inr a"
  shows "totalTasks a = length (filter (\<lambda>t. taskProject t = pid) (tasks (durable s))) \<and>
         completedTasks a =
           length (filter (\<lambda>t. taskProject t = pid \<and> status t = DONE) (tasks (durable s))) \<and>
         overdueTasks a =
           length (filter (\<lambda>t. taskProject t = pid \<and>
                     (\<exists>due. dueDate t = Some due \<and> due < currentDate en) \<and> status t \<noteq> DONE)
                   (tasks (durable s))) \<and>
         completedTasks a \<le> totalTasks a \<and> overdueTasks a \<le> totalTasks a \<and>
         completedTasks a + overdueTasks a \<le> totalTasks a"
proof -
  let ?ts = "filter (\<lambda>t. taskProject t = pid) (tasks (durable s))"
  from getProjectAnalyticsService_Inr_D[OF assms] obtain p where
    p: "ProjectModel_findById pid (durable s) = Some p" "projectWorkspace p = wid" by blast
  from getProjectAnalyticsService_found[OF p, of en] assms
  have a: "a = \<lparr>totalTasks = length ?ts,
            overdueTasks = length (filter (overdue (currentDate en)) ?ts),
            completedTasks = length (filter (\<lambda>t. status t = DONE) ?ts)\<rparr>"
    by simp
  have ov: "overdue (currentDate en) =
      (\<lambda>t. (\<exists>due. dueDate t = Some due \<and> due < currentDate en) \<and> status t \<noteq> DONE)"
    by (rule ext) (auto simp: overdue_def split: option.splits)
  have "length (filter (\<lambda>t. status t = DONE) ?ts) + length (filter (overdue (currentDate en)) ?ts)
          \<le> length ?ts"
  proof -
    have "length (filter (\<lambda>t. status t = DONE) ?ts) + length (filter (\<lambda>t. status t \<noteq> DONE) ?ts)
            = length ?ts"
      by (rule sum_length_filter_compl)
    moreover have "length (filter (overdue (currentDate en)) ?ts)
            \<le> length (filter (\<lambda>t. status t \<noteq> DONE) ?ts)"
      by (rule length_filter_mono) (simp add: overdue_def)
    ultimately show ?thesis by linarith
  qed
  moreover have "length (filter (\<lambda>t. status t = DONE) ?ts) \<le> length ?ts"
    "length (filter (overdue (currentDate en)) ?ts) \<le> length ?ts"
    by (rule length_filter_le)+
  ultimately show ?thesis
    unfolding a by (simp add: ov conj_commute)
qed

lemma analytics_example:
  "fst (getProjectAnalyticsService exampleEnv 12 20 (stateOf projectDb 30)) =
     Inr \<lparr>totalTasks = 4, overdueTasks = 1, completedTasks = 1\<rparr>"
  by code_simp

lemma analytics_project:
  "ProjectModel_findById 20 (durable (stateOf projectDb 30)) =
     Some \<lparr>project_id = 20, projectWorkspace = 12, projectName = ''Launch'',
           projectDescription = None, emoji = '':rocket:'', createdBy = 10\<rparr>"
  by (simp add: ProjectModel_findById_def stateOf_def projectDb_def)

text \<open>C9. For a project of the given workspace, \<open>getProjectAnalyticsService\<close> returns
  analytics in which the total is the number of the project's tasks, the completed count is
  the number of them with status DONE, and the overdue count is the number of them whose
  due date is present and strictly before the current date and whose status is not DONE;
  both counts, and even their sum, are at most the total.\<close>

theorem project_analytics_counts:
  assumes "ProjectModel_findById pid (durable s) = Some p" and "projectWorkspace p = wid"
  shows "\<exists>a. fst (getProjectAnalyticsService en wid pid s) = Inr a \<and>
           totalTasks a = length (filter (\<lambda>t. taskProject t = pid) (tasks (durable s))) \<and>
           completedTasks a =
             length (filter (\<lambda>t. taskProject t = pid \<and> status t = DONE) (tasks (durable s))) \<and>
           overdueTasks a =
             length (filter (\<lambda>t. taskProject t = pid \<and>
                       (\<exists>due. dueDate t = Some due \<and> due < currentDate en) \<and> status t \<noteq> DONE)
                     (tasks (durable s))) \<and>
           completedTasks a \<le> totalTasks a \<and> overdueTasks a \<le> totalTasks a \<and>
           completedTasks a + overdueTasks a \<le> totalTasks a"
proof -
  from getProjectAnalyticsService_found[OF assms, of en] obtain a where
    a: "fst (getProjectAnalyticsService en wid pid s) = Inr a" by simp
  from analytics_of_result[OF a] a show ?thesis by blast
qed

theorem project_analytics_counts_witness:
  "fst (getProjectAnalyticsService exampleEnv 12 20 (stateOf projectDb 30)) =
     Inr \<lparr>totalTasks = 4, overdueTasks = 1, completedTasks = 1\<rparr> \<and>
   length (filter (\<lambda>t. taskProject t = 20 \<and> status t = DONE) (tasks projectDb)) = 1 \<and>
   length (filter (\<lambda>t. taskProject t = 20 \<and>
             (\<exists>due. dueDate t = Some due \<and> due < currentDate exampleEnv) \<and> status t \<noteq> DONE)
           (tasks projectDb)) = 1"
  using project_analytics_counts[OF analytics_project, of 12 exampleEnv] analytics_example
  by (auto simp: stateOf_def)


section \<open>Update of a project\<close>

lemma updateOne_others:
  "updateOne P f xs = Some ys \<Longrightarrow> list_all2 (\<lambda>x y. \<not> P x \<longrightarrow> y = x) xs ys"
proof (induction xs arbitrary: ys)
  case Nil
  then show ?case by simp
next
  case (Cons x xs)
  then show ?case
    by (auto split: if_splits simp: list_all2_same list.rel_refl)
qed

lemma updateOne_Some: "\<exists>x \<in> set xs. P x \<Longrightarrow> \<exists>ys. updateOne P f xs = Some ys"
  by (induction xs) auto

lemma ProjectModel_save_stored:
  assumes "ProjectModel_save d b = Inr (d', b')" and "\<not> isNew d"
  shows "doc d' = doc d"
    and "b'\<lparr>projects := projects b\<rparr> = b"
    and "map project_id (projects b') = map project_id (projects b)"
    and "list_all2 (\<lambda>q q'. project_id q = project_id (doc d) \<or> q' = q) (projects b) (projects b')"
proof -
  show "doc d' = doc d" "b'\<lparr>projects := projects b\<rparr> = b"
    using assms by (auto simp: ProjectModel_save_def Let_def split: if_splits option.splits)
  show "map project_id (projects b') = map project_id (projects b)"
    using assms
    by (auto simp: ProjectModel_save_def Let_def writeModifiedProject_def
        split: if_splits option.splits intro: updateOne_map)
  show "list_all2 (\<lambda>q q'. project_id q = project_id (doc d) \<or> q' = q) (projects b) (projects b')"
    using assms
    by (auto simp: ProjectModel_save_def Let_def list.rel_refl
        split: if_splits option.splits dest!: updateOne_others elim!: list_all2_mono)
qed

lemma ProjectModel_save_unmodified:
  assumes "ProjectModel_save d b = Inr (d', b')" and "\<not> isNew d"
    and "\<And>q. g (writeModifiedProject d q) = g q"
  shows "map g (projects b') = map g (projects b)"
  using assms
  by (auto simp: ProjectModel_save_def Let_def split: if_splits option.splits
      intro: updateOne_map)

lemma ProjectModel_save_stored_succeeds:
  assumes "\<not> isNew d" and "\<exists>q \<in> set (projects b). project_id q = project_id (doc d)"
  shows "\<exists>d' b'. ProjectModel_save d b = Inr (d', b')"
proof -
  from updateOne_Some[of "projects b" "\<lambda>q. project_id q = project_id (doc d)", OF assms(2)]
  obtain ps where
    "updateOne (\<lambda>q. project_id q = project_id (doc d)) (writeModifiedProject d) (projects b)
       = Some ps"
    by blast
  with assms(1) show ?thesis
    by (simp add: ProjectModel_save_def Let_def)
qed

lemma updateProjectService_Inr_D:
  assumes "fst (updateProjectService wid pid bName bEmoji bDescription s) = Inr p'"
  obtains p d d' b' where
    "find (\<lambda>q. project_id q = pid \<and> projectWorkspace q = wid) (projects (durable s)) = Some p"
    "d = (let d0 = \<lparr>doc = p, isNew = False, modifiedPaths = []\<rparr>;
              d1 = (if truthy bEmoji then set_emoji (strOf bEmoji) d0 else d0);
              d2 = (if truthy bName then set_name (strOf bName) d1 else d1)
          in if truthy bDescription then set_description (strOf bDescription) d2 else d2)"
    "ProjectModel_save d (durable s) = Inr (d', b')"
    "p' = doc d'"
    "snd (updateProjectService wid pid bName bEmoji bDescription s) = s\<lparr>durable := b'\<rparr>"
  using assms
  by (auto simp: updateProjectService_def ProjectModel_findOne_def ioBind_def direct_def
      query_def ioThrow_def ioReturn_def Let_def split: option.splits sum.splits)

lemma frame_of_update_result:
  assumes "fst (updateProjectService wid pid bName bEmoji bDescription s) = Inr p'"
  shows "(\<exists>p. find (\<lambda>q. project_id q = pid \<and> projectWorkspace q = wid)
                (projects (durable s)) = Some p \<and>
              project_id p' = project_id p \<and> projectWorkspace p' = projectWorkspace p \<and>
              createdBy p' = createdBy p \<and>
              emoji p' = (if truthy bEmoji then strOf bEmoji else emoji p) \<and>
              projectName p' = (if truthy bName then strOf bName else projectName p) \<and>
              projectDescription p' =
                (if truthy bDescription then Some (strOf bDescription)
                 else projectDescription p)) \<and>
         onlyEdited pid bName bEmoji bDescription (durable s)
           (durable (snd (updateProjectService wid pid bName bEmoji bDescription s)))"
proof -
  from assms obtain p d d' b' where
    found: "find (\<lambda>q. project_id q = pid \<and> projectWorkspace q = wid) (projects (durable s))
              = Some p"
    and d: "d = (let d0 = \<lparr>doc = p, isNew = False, modifiedPaths = []\<rparr>;
              d1 = (if truthy bEmoji then set_emoji (strOf bEmoji) d0 else d0);
              d2 = (if truthy bName then set_name (strOf bName) d1 else d1)
          in if truthy bDescription then set_description (strOf bDescription) d2 else d2)"
    and save: "ProjectModel_save d (durable s) = Inr (d', b')"
    and p': "p' = doc d'"
    and s': "snd (updateProjectService wid pid bName bEmoji bDescription s) = s\<lparr>durable := b'\<rparr>"
    by (rule updateProjectService_Inr_D)
  from found have pid: "project_id p = pid" "projectWorkspace p = wid"
    by (auto simp: find_Some_iff)
  have stored: "\<not> isNew d"
    by (simp add: d Let_def set_emoji_def set_name_def set_description_def)
  have docd: "doc d = edited bName bEmoji bDescription p"
    by (simp add: d Let_def set_emoji_def set_name_def set_description_def edited_def)
  have paths: "set (modifiedPaths d) \<subseteq> {''emoji'', ''name'', ''description''}"
    "truthy bEmoji \<or> ''emoji'' \<notin> set (modifiedPaths d)"
    "truthy bName \<or> ''name'' \<notin> set (modifiedPaths d)"
    "truthy bDescription \<or> ''description'' \<notin> set (modifiedPaths d)"
    by (auto simp: d Let_def set_emoji_def set_name_def set_description_def)
  note st = ProjectModel_save_stored[OF save stored]
  have ws: "map projectWorkspace (projects b') = map projectWorkspace (projects (durable s))"
    using paths(1)
    by (intro ProjectModel_save_unmodified[OF save stored])
      (auto simp: writeModifiedProject_def isModified_def)
  have cb: "map createdBy (projects b') = map createdBy (projects (durable s))"
    using paths(1)
    by (intro ProjectModel_save_unmodified[OF save stored])
      (auto simp: writeModifiedProject_def isModified_def)
  have em: "truthy bEmoji \<or> map emoji (projects b') = map emoji (projects (durable s))"
    using paths(2)
    by (auto intro!: ProjectModel_save_unmodified[OF save stored]
        simp: writeModifiedProject_def isModified_def)
  have nm: "truthy bName \<or> map projectName (projects b') = map projectName (projects (durable s))"
    using paths(3)
    by (auto intro!: ProjectModel_save_unmodified[OF save stored]
        simp: writeModifiedProject_def isModified_def)
  have ds: "truthy bDescription \<or>
      map projectDescription (projects b') = map projectDescription (projects (durable s))"
    using paths(4)
    by (auto intro!: ProjectModel_save_unmodified[OF save stored]
        simp: writeModifiedProject_def isModified_def)
  from st(4) docd pid
  have others: "list_all2 (\<lambda>q q'. project_id q = pid \<or> q' = q) (projects (durable s)) (projects b')"
    by (simp add: edited_def)
  have "onlyEdited pid bName bEmoji bDescription (durable s) b'"
    unfolding onlyEdited_def using st(2,3) ws cb em nm ds others by blast
  moreover from p' st(1) docd have "p' = edited bName bEmoji bDescription p" by simp
  ultimately show ?thesis
    using found s' by (auto simp: edited_def)
qed

lemma updateProjectService_succeeds:
  assumes "find (\<lambda>q. project_id q = pid \<and> projectWorkspace q = wid) (projects (durable s))
             = Some p"
  shows "\<exists>p'. fst (updateProjectService wid pid bName bEmoji bDescription s) = Inr p'"
proof -
  let ?d0 = "\<lparr>doc = p, isNew = False, modifiedPaths = []\<rparr>"
  let ?d1 = "if truthy bEmoji then set_emoji (strOf bEmoji) ?d0 else ?d0"
  let ?d2 = "if truthy bName then set_name (strOf bName) ?d1 else ?d1"
  let ?d = "if truthy bDescription then set_description (strOf bDescription) ?d2 else ?d2"
  from assms have p: "p \<in> set (projects (durable s))" "project_id p = pid"
    by (auto simp: find_Some_iff)
  have "\<not> isNew ?d" "project_id (doc ?d) = pid"
    using p(2) by (simp_all add: set_emoji_def set_name_def set_description_def)
  with p ProjectModel_save_stored_succeeds[of ?d "durable s"]
  obtain d' b' where "ProjectModel_save ?d (durable s) = Inr (d', b')"
    by metis
  with assms show ?thesis
    by (simp add: updateProjectService_def ProjectModel_findOne_def ioBind_def direct_def
        query_def ioReturn_def Let_def)
qed

text \<open>C10. For a project stored under the given id and workspace and for every body,
  \<open>updateProjectService\<close> returns the project with its id, workspace and creator as they
  were and with each of emoji, name and description replaced by the body's value if that
  value is truthy and left as it was otherwise (absent, null or the empty string). In the
  database nothing but the project collection changes, no stored project changes its id,
  workspace or creator, a field whose body value is not truthy changes in no stored
  project, and projects with another id are left as they were.\<close>

theorem update_project_frame:
  assumes "find (\<lambda>q. project_id q = pid \<and> projectWorkspace q = wid) (projects (durable s))
             = Some p"
  shows "\<exists>p'. fst (updateProjectService wid pid bName bEmoji bDescription s) = Inr p' \<and>
           project_id p' = project_id p \<and> projectWorkspace p' = projectWorkspace p \<and>
           createdBy p' = createdBy p \<and>
           emoji p' = (if truthy bEmoji then strOf bEmoji else emoji p) \<and>
           projectName p' = (if truthy bName then strOf bName else projectName p) \<and>
           projectDescription p' =
             (if truthy bDescription then Some (strOf bDescription)
              else projectDescription p) \<and>
           onlyEdited pid bName bEmoji bDescription (durable s)
             (durable (snd (updateProjectService wid pid bName bEmoji bDescription s)))"
proof -
  from updateProjectService_succeeds[OF assms] obtain p' where
    "fst (updateProjectService wid pid bName bEmoji bDescription s) = Inr p'" by blast
  with frame_of_update_result[OF this] assms show ?thesis by simp
qed

theorem update_project_frame_witness:
  "fst (updateProjectService 12 20 (Str ''Launch v2'') Null (Str []) (stateOf projectDb 30)) =
     Inr \<lparr>project_id = 20, projectWorkspace = 12, projectName = ''Launch v2'',
           projectDescription = None, emoji = '':rocket:'', createdBy = 10\<rparr> \<and>
   onlyEdited 20 (Str ''Launch v2'') Null (Str []) projectDb
     (durable (snd (updateProjectService 12 20 (Str ''Launch v2'') Null (Str [])
        (stateOf projectDb 30))))"
proof -
  have found: "find (\<lambda>q. project_id q = 20 \<and> projectWorkspace q = 12)
      (projects (durable (stateOf projectDb 30))) =
      Some \<lparr>project_id = 20, projectWorkspace = 12, projectName = ''Launch'',
           projectDescription = None, emoji = '':rocket:'', createdBy = 10\<rparr>"
    by (simp add: stateOf_def projectDb_def)
  have run: "fst (updateProjectService 12 20 (Str ''Launch v2'') Null (Str [])
      (stateOf projectDb 30)) =
     Inr \<lparr>project_id = 20, projectWorkspace = 12, projectName = ''Launch v2'',
           projectDescription = None, emoji = '':rocket:'', createdBy = 10\<rparr>"
    by code_simp
  from update_project_frame[OF found, of "Str ''Launch v2''" Null "Str []"] run
  show ?thesis by (simp add: stateOf_def)
qed

end
